theory Spec2Isabelle
  imports Complex_Main "HOL-Library.Char_ord" "HOL-Library.List_Lexorder"
begin

section \<open>Python values\<close>

text \<open>
  The grammar dataset comes out of \<^verbatim>\<open>json.load\<close> and the candidate handed to
  \<^verbatim>\<open>validate\<close> is a \<^verbatim>\<open>Dict[str, Any]\<close>, so both hold dynamically typed values.
  A text value is a sequence of code points; one \<^typ>\<open>char\<close> stands for one code point
  below 256. A dict with text keys is an association list read with \<^const>\<open>map_of\<close>.
\<close>

datatype json =
    JNull
  | JBool bool
  | JInt int
  | JFloat real
  | JStr string
  | JList "json list"
  | JObj "(string \<times> json) list"

text \<open>Truth value of an object, as \<^verbatim>\<open>not x\<close> and \<^verbatim>\<open>if x\<close> read it.\<close>

fun truthy :: "json \<Rightarrow> bool" where
  "truthy JNull = False"
| "truthy (JBool b) = b"
| "truthy (JInt n) = (n \<noteq> 0)"
| "truthy (JFloat x) = (x \<noteq> 0)"
| "truthy (JStr s) = (s \<noteq> [])"
| "truthy (JList xs) = (xs \<noteq> [])"
| "truthy (JObj kvs) = (kvs \<noteq> [])"

text \<open>\<^verbatim>\<open>type(x).__name__\<close>.\<close>

fun type_name :: "json \<Rightarrow> string" where
  "type_name JNull = ''NoneType''"
| "type_name (JBool b) = ''bool''"
| "type_name (JInt n) = ''int''"
| "type_name (JFloat x) = ''float''"
| "type_name (JStr s) = ''str''"
| "type_name (JList xs) = ''list''"
| "type_name (JObj kvs) = ''dict''"

text \<open>\<^verbatim>\<open>isinstance(x, str)\<close>.\<close>

fun is_str :: "json \<Rightarrow> bool" where
  "is_str (JStr s) = True"
| "is_str v = False"

text \<open>Lists and dicts cannot be hashed: using one as a dict key raises \<^verbatim>\<open>TypeError\<close>.\<close>

fun hashable :: "json \<Rightarrow> bool" where
  "hashable (JList xs) = False"
| "hashable (JObj kvs) = False"
| "hashable v = True"

text \<open>
  Equality of dict keys: numbers compare by value across \<^verbatim>\<open>bool\<close>, \<^verbatim>\<open>int\<close> and
  \<^verbatim>\<open>float\<close> (\<^verbatim>\<open>True == 1 == 1.0\<close>); \<^verbatim>\<open>None\<close> and text only equal themselves.
\<close>

fun num_of :: "json \<Rightarrow> real option" where
  "num_of (JBool b) = Some (if b then 1 else 0)"
| "num_of (JInt n) = Some (of_int n)"
| "num_of (JFloat x) = Some x"
| "num_of v = None"

definition py_eq :: "json \<Rightarrow> json \<Rightarrow> bool" where
  "py_eq a b =
     (case num_of a of
        Some x \<Rightarrow> (case num_of b of Some y \<Rightarrow> x = y | None \<Rightarrow> False)
      | None \<Rightarrow> (case num_of b of Some y \<Rightarrow> False | None \<Rightarrow> a = b))"

text \<open>
  A dict with arbitrary hashable keys keeps insertion order: assigning to a key that is
  already there replaces the value in place, a new key is appended.
\<close>

type_synonym 'v pydict = "(json \<times> 'v) list"

fun dict_get :: "'v pydict \<Rightarrow> json \<Rightarrow> 'v option" where
  "dict_get [] k = None"
| "dict_get ((k', v) # rest) k = (if py_eq k' k then Some v else dict_get rest k)"

fun dict_set :: "json \<Rightarrow> 'v \<Rightarrow> 'v pydict \<Rightarrow> 'v pydict" where
  "dict_set k v [] = [(k, v)]"
| "dict_set k v ((k', v') # rest) =
     (if py_eq k' k then (k', v) # rest else (k', v') # dict_set k v rest)"

definition dict_contains :: "'v pydict \<Rightarrow> json \<Rightarrow> bool" where
  "dict_contains d k = (dict_get d k \<noteq> None)"

text \<open>\<^verbatim>\<open>d.get(key, default)\<close> on a dict with text keys.\<close>

definition obj_get :: "(string \<times> json) list \<Rightarrow> string \<Rightarrow> json \<Rightarrow> json" where
  "obj_get d k dflt = (case map_of d k of None \<Rightarrow> dflt | Some v \<Rightarrow> v)"

text \<open>
  An f-string field \<^verbatim>\<open>{v}\<close>: text is inserted as it is, \<^verbatim>\<open>None\<close> and the truth
  values by name. How the runtime prints numbers, lists and dicts is not part of the
  repository; it is the parameter \<open>other\<close>.
\<close>

fun format_value :: "(json \<Rightarrow> string) \<Rightarrow> json \<Rightarrow> string" where
  "format_value other (JStr s) = s"
| "format_value other JNull = ''None''"
| "format_value other (JBool b) = (if b then ''True'' else ''False'')"
| "format_value other v = other v"

text \<open>\<^verbatim>\<open>sep.join(parts)\<close>.\<close>

fun join :: "string \<Rightarrow> string list \<Rightarrow> string" where
  "join sep [] = []"
| "join sep [x] = x"
| "join sep (x # y # ys) = x @ sep @ join sep (y # ys)"

text \<open>
  Character classes of the code points below 256, as \<^verbatim>\<open>str.isupper\<close> and
  \<^verbatim>\<open>str.isalpha\<close> use them: upper-case letters, lower-case letters (the two ordinal
  indicators and the micro sign included) and letters.
\<close>

definition is_upper_cp :: "char \<Rightarrow> bool" where
  "is_upper_cp c =
     (let n = (of_char c :: nat)
      in (65 \<le> n \<and> n \<le> 90) \<or> (192 \<le> n \<and> n \<le> 214) \<or> (216 \<le> n \<and> n \<le> 222))"

definition is_lower_cp :: "char \<Rightarrow> bool" where
  "is_lower_cp c =
     (let n = (of_char c :: nat)
      in (97 \<le> n \<and> n \<le> 122) \<or> n = 170 \<or> n = 181 \<or> n = 186
         \<or> (223 \<le> n \<and> n \<le> 246) \<or> (248 \<le> n \<and> n \<le> 255))"

definition is_alpha_cp :: "char \<Rightarrow> bool" where
  "is_alpha_cp c = (is_upper_cp c \<or> is_lower_cp c)"

text \<open>
  \<^verbatim>\<open>s.isupper()\<close>: no cased character is lower case and there is at least one
  upper-case character. \<^verbatim>\<open>s.isalpha()\<close>: non-empty and every character is a letter.
\<close>

definition isupper :: "string \<Rightarrow> bool" where
  "isupper s = (list_all (\<lambda>c. \<not> is_lower_cp c) s \<and> list_ex is_upper_cp s)"

definition isalpha :: "string \<Rightarrow> bool" where
  "isalpha s = (s \<noteq> [] \<and> list_all is_alpha_cp s)"

text \<open>The exceptions the modelled code can raise.\<close>

datatype error = TypeError | AttributeError | ValueError | ImportError | OSError


section \<open>Rule extractor (validators/rule\_extractor.py)\<close>

record CaseConstraints =
  case_name :: json
  case_abbrev :: json
  semantic_role :: json
  description :: json
  allowed_functions :: "string set"
  forbidden_functions :: "string set"
  why_not_alternatives :: json
  common_mistakes :: json

definition allows_function :: "CaseConstraints \<Rightarrow> string \<Rightarrow> bool" where
  "allows_function c function =
     (if forbidden_functions c \<noteq> {} \<and> function \<in> forbidden_functions c then False
      else if allowed_functions c \<noteq> {} \<and> function \<notin> allowed_functions c then False
      else True)"

text \<open>A rule of the role table: the allowed and the forbidden functions.\<close>

record role_rule =
  allowed :: "string set"
  forbidden :: "string set"

definition ROLE_FUNCTION_RULES :: "(string \<times> role_rule) list" where
  "ROLE_FUNCTION_RULES =
    [(''EXPERIENCER'', \<lparr>allowed = {''STA''}, forbidden = {''DYN'', ''MNF''}\<rparr>),
     (''AGENT'', \<lparr>allowed = {''DYN'', ''MNF''}, forbidden = {''STA''}\<rparr>),
     (''PATIENT'', \<lparr>allowed = {''STA'', ''DYN''}, forbidden = {}\<rparr>),
     (''AGENT+PATIENT'', \<lparr>allowed = {''STA'', ''DYN''}, forbidden = {}\<rparr>),
     (''INSTRUMENT'', \<lparr>allowed = {''DYN''}, forbidden = {''STA''}\<rparr>),
     (''CONTENT'', \<lparr>allowed = {''STA'', ''DYN'', ''MNF''}, forbidden = {}\<rparr>),
     (''STIMULUS'', \<lparr>allowed = {''STA'', ''DYN''}, forbidden = {}\<rparr>),
     (''GOAL'', \<lparr>allowed = {''DYN'', ''MNF''}, forbidden = {''STA''}\<rparr>),
     (''PURPOSE'', \<lparr>allowed = {''DYN'', ''MNF''}, forbidden = {''STA''}\<rparr>),
     (''ENABLER'', \<lparr>allowed = {''DYN'', ''MNF''}, forbidden = {}\<rparr>),
     (''ACTIVATION'', \<lparr>allowed = {''DYN'', ''MNF''}, forbidden = {}\<rparr>),
     (''RECIPIENT'', \<lparr>allowed = {''DYN''}, forbidden = {}\<rparr>),
     (''ATTRIBUTE'', \<lparr>allowed = {''STA''}, forbidden = {}\<rparr>),
     (''POSSESSOR'', \<lparr>allowed = {''STA''}, forbidden = {}\<rparr>),
     (''OWNER'', \<lparr>allowed = {''STA''}, forbidden = {}\<rparr>),
     (''LOCATION'', \<lparr>allowed = {''STA'', ''DYN''}, forbidden = {}\<rparr>),
     (''ORIENTATION'', \<lparr>allowed = {''STA'', ''DYN''}, forbidden = {}\<rparr>),
     (''SOURCE'', \<lparr>allowed = {''STA'', ''DYN''}, forbidden = {}\<rparr>),
     (''PART'', \<lparr>allowed = {''STA'', ''DYN''}, forbidden = {}\<rparr>),
     (''CORRELATION'', \<lparr>allowed = {''STA'', ''DYN''}, forbidden = {}\<rparr>),
     (''DEPENDENT'', \<lparr>allowed = {''STA'', ''DYN''}, forbidden = {}\<rparr>),
     (''CONTINGENCY'', \<lparr>allowed = {''STA'', ''DYN''}, forbidden = {}\<rparr>)]"

text \<open>
  The extractor object: the parsed grammar file in \<open>raw_data\<close>, and the role table, which
  the methods read as \<^verbatim>\<open>self.ROLE_FUNCTION_RULES\<close>. The constructor
  sets the table to the class constant.
\<close>

record RuleExtractor =
  role_function_rules :: "(string \<times> role_rule) list"
  raw_data :: json

definition RuleExtractor_init :: "json \<Rightarrow> RuleExtractor" where
  "RuleExtractor_init data = \<lparr>role_function_rules = ROLE_FUNCTION_RULES, raw_data = data\<rparr>"

text \<open>
  \<^verbatim>\<open>for item in self.raw_data\<close>: a list yields its elements, a dict its keys, a text its
  characters; anything else is not iterable.
\<close>

fun iterate :: "json \<Rightarrow> error + json list" where
  "iterate (JList xs) = Inr xs"
| "iterate (JObj kvs) = Inr (map (\<lambda>kv. JStr (fst kv)) kvs)"
| "iterate (JStr s) = Inr (map (\<lambda>c. JStr [c]) s)"
| "iterate v = Inl TypeError"

text \<open>\<^verbatim>\<open>item.get(key, default)\<close>: only a dict has the method.\<close>

fun item_get :: "json \<Rightarrow> string \<Rightarrow> json \<Rightarrow> error + json" where
  "item_get (JObj kvs) k dflt = Inr (obj_get kvs k dflt)"
| "item_get v k dflt = Inl AttributeError"

text \<open>\<^verbatim>\<open>[item for item in self.raw_data if item.get('type') == 'case']\<close>.\<close>

fun select_cases :: "json list \<Rightarrow> error + json list" where
  "select_cases [] = Inr []"
| "select_cases (item # rest) =
     (case item_get item ''type'' JNull of
        Inl e \<Rightarrow> Inl e
      | Inr t \<Rightarrow>
          (case select_cases rest of
             Inl e \<Rightarrow> Inl e
           | Inr cs \<Rightarrow> Inr (if t = JStr ''case'' then item # cs else cs)))"

text \<open>
  \<^verbatim>\<open>self.ROLE_FUNCTION_RULES.get(semantic_role, default)\<close>: the keys of the table are
  text, so only a text role can be found.
\<close>

definition default_rule :: role_rule where
  "default_rule = \<lparr>allowed = {''STA'', ''DYN'', ''MNF''}, forbidden = {}\<rparr>"

fun rules_get :: "(string \<times> role_rule) list \<Rightarrow> json \<Rightarrow> role_rule" where
  "rules_get tbl (JStr role) = (case map_of tbl role of None \<Rightarrow> default_rule | Some r \<Rightarrow> r)"
| "rules_get tbl v = default_rule"

text \<open>The body of the loop over the selected cases, and the loop.\<close>

definition make_constraint :: "(string \<times> role_rule) list \<Rightarrow> (string \<times> json) list \<Rightarrow> CaseConstraints" where
  "make_constraint tbl case_data =
     (let code = obj_get case_data ''code'' JNull;
          role = obj_get case_data ''semantic_role'' (JStr ''UNKNOWN'');
          role_rules = rules_get tbl role
      in \<lparr>case_name = obj_get case_data ''name'' code,
          case_abbrev = code,
          semantic_role = role,
          description = obj_get case_data ''description'' (JStr ''''),
          allowed_functions = allowed role_rules,
          forbidden_functions = forbidden role_rules,
          why_not_alternatives = obj_get case_data ''why_not_alternatives'' (JObj []),
          common_mistakes = obj_get case_data ''common_mistakes'' (JList [])\<rparr>)"

fun extract_loop ::
  "(string \<times> role_rule) list \<Rightarrow> json list \<Rightarrow> CaseConstraints pydict \<Rightarrow> error + CaseConstraints pydict"
where
  "extract_loop tbl [] constraints = Inr constraints"
| "extract_loop tbl (JObj case_data # rest) constraints =
     (if \<not> hashable (obj_get case_data ''semantic_role'' (JStr ''UNKNOWN'')) then Inl TypeError
      else if \<not> hashable (obj_get case_data ''code'' JNull) then Inl TypeError
      else extract_loop tbl rest
             (dict_set (obj_get case_data ''code'' JNull) (make_constraint tbl case_data) constraints))"
| "extract_loop tbl (v # rest) constraints = Inl AttributeError"

definition extract_case_constraints :: "RuleExtractor \<Rightarrow> error + CaseConstraints pydict" where
  "extract_case_constraints self =
     (case iterate (raw_data self) of
        Inl e \<Rightarrow> Inl e
      | Inr items \<Rightarrow>
          (case select_cases items of
             Inl e \<Rightarrow> Inl e
           | Inr cases \<Rightarrow> extract_loop (role_function_rules self) cases []))"

text \<open>The conflict check of \<^verbatim>\<open>validate_rules\<close>: it stops at the first overlap.\<close>

fun no_conflicts :: "CaseConstraints pydict \<Rightarrow> bool" where
  "no_conflicts [] = True"
| "no_conflicts ((abbrev, constraint) # rest) =
     (if allowed_functions constraint \<inter> forbidden_functions constraint \<noteq> {} then False
      else no_conflicts rest)"

definition validate_rules :: "RuleExtractor \<Rightarrow> error + bool" where
  "validate_rules self =
     (case extract_case_constraints self of
        Inl e \<Rightarrow> Inl e
      | Inr constraints \<Rightarrow> Inr (no_conflicts constraints))"


section \<open>Constraint store (validators/cooccurrence\_rules.py)\<close>

record CooccurrenceRules =
  extractor :: RuleExtractor
  constraints :: "CaseConstraints pydict"

text \<open>
  The constructor builds the extractor from the grammar file and then runs
  \<open>CooccurrenceRules_load\<close>, the rest of its body.
\<close>

definition CooccurrenceRules_load :: "RuleExtractor \<Rightarrow> error + CooccurrenceRules" where
  "CooccurrenceRules_load ex =
     (case extract_case_constraints ex of
        Inl e \<Rightarrow> Inl e
      | Inr cs \<Rightarrow>
          (case validate_rules ex of
             Inl e \<Rightarrow> Inl e
           | Inr ok \<Rightarrow>
               if \<not> ok then Inl ValueError
               else Inr \<lparr>extractor = ex, constraints = cs\<rparr>))"

definition CooccurrenceRules_init :: "json \<Rightarrow> error + CooccurrenceRules" where
  "CooccurrenceRules_init data = CooccurrenceRules_load (RuleExtractor_init data)"

definition check_case_function ::
  "(json \<Rightarrow> string) \<Rightarrow> CooccurrenceRules \<Rightarrow> string \<Rightarrow> string \<Rightarrow> bool \<times> string option"
where
  "check_case_function other self cse function =
     (case dict_get (constraints self) (JStr cse) of
        None \<Rightarrow> (True, None)
      | Some constraint \<Rightarrow>
          if \<not> allows_function constraint function then
            (let allowed = allowed_functions constraint;
                 forbidden = forbidden_functions constraint;
                 msg = cse @ '' ('' @ format_value other (case_name constraint)
                       @ '') cannot co-occur with '' @ function @ '' function. ''
                       @ ''Semantic role: '' @ format_value other (semantic_role constraint) @ ''. '';
                 msg1 = (if allowed \<noteq> {}
                         then msg @ ''Allowed: '' @ join '', '' (sorted_list_of_set allowed) @ ''. ''
                         else msg);
                 msg2 = (if forbidden \<noteq> {}
                         then msg1 @ ''Forbidden: '' @ join '', '' (sorted_list_of_set forbidden) @ ''.''
                         else msg1)
             in (False, Some msg2))
          else (True, None))"

definition get_allowed_functions :: "CooccurrenceRules \<Rightarrow> string \<Rightarrow> string set" where
  "get_allowed_functions self cse =
     (case dict_get (constraints self) (JStr cse) of
        None \<Rightarrow> {''STA'', ''DYN'', ''MNF''}
      | Some constraint \<Rightarrow> allowed_functions constraint)"


section \<open>Validation engine (validation\_engine.py)\<close>

datatype ValidationLevel = STRUCTURE | COHERENCE | SEMANTIC

text \<open>
  The message of an error is optional in the model because the constraint stage passes
  on the optional message of \<open>check_case_function\<close> unchanged.
\<close>

record ValidationError =
  level :: ValidationLevel
  message :: "string option"
  slot :: "string option"
  suggestion :: "string option"

record ValidationResult =
  passed :: bool
  confidence :: real
  errors :: "ValidationError list"
  citations :: "string list"
  needs_clarification :: bool

text \<open>The counters of \<^verbatim>\<open>self.stats\<close>, one field per key.\<close>

record stats =
  total_validations :: int
  stats_passed :: int
  stats_rejected :: int
  clarification_needed :: int

text \<open>
  The retriever is an external collaborator. Its \<^verbatim>\<open>retrieve_for_case\<close> is a function
  from a case code to at most one chunk.
\<close>

record RetrievedChunk =
  rc_case_code :: string
  rc_case_name :: string
  rc_semantic_role :: string
  rc_description :: string
  rc_citation :: string
  rc_score :: real

type_synonym RAGSystem = "string \<Rightarrow> RetrievedChunk option"

record ValidationEngine =
  grammar_kb :: "(string \<times> json) list"
  stats :: stats
  cooccurrence_rules :: "CooccurrenceRules option"
  rag :: "RAGSystem option"

text \<open>
  The constructor. \<open>grammar_file\<close> is \<open>None\<close> when no file is given or it does not
  exist, \<open>Some (Inl e)\<close> when reading it raises, \<open>Some (Inr data)\<close> when it parses to
  \<open>data\<close>; \<open>rag_system\<close> is the outcome of building the retriever. Any exception is
  caught and leaves the fields as they were at that moment.
\<close>

definition ValidationEngine_init ::
  "(string \<times> json) list \<Rightarrow> (error + json) option \<Rightarrow> error + RAGSystem \<Rightarrow> ValidationEngine"
where
  "ValidationEngine_init kb grammar_file rag_system =
     (let self = \<lparr>grammar_kb = kb,
                  stats = \<lparr>total_validations = 0, stats_passed = 0,
                           stats_rejected = 0, clarification_needed = 0\<rparr>,
                  cooccurrence_rules = None,
                  rag = None\<rparr>
      in case grammar_file of
           None \<Rightarrow> self
         | Some (Inl e) \<Rightarrow> self
         | Some (Inr data) \<Rightarrow>
             (case CooccurrenceRules_init data of
                Inl e \<Rightarrow> self
              | Inr rules \<Rightarrow>
                  (case rag_system of
                     Inl e \<Rightarrow> self\<lparr>cooccurrence_rules := Some rules\<rparr>
                   | Inr r \<Rightarrow> self\<lparr>cooccurrence_rules := Some rules, rag := Some r\<rparr>)))"

text \<open>
  The constructor once more, with the role table as a parameter: the extractor reads the
  table through \<^verbatim>\<open>self.ROLE_FUNCTION_RULES\<close>, and \<open>ValidationEngine_init\<close> is this
  function at the class constant.
\<close>

definition ValidationEngine_init_with ::
  "(string \<times> role_rule) list \<Rightarrow> (string \<times> json) list \<Rightarrow> (error + json) option
     \<Rightarrow> error + RAGSystem \<Rightarrow> ValidationEngine"
where
  "ValidationEngine_init_with tbl kb grammar_file rag_system =
     (let self = \<lparr>grammar_kb = kb,
                  stats = \<lparr>total_validations = 0, stats_passed = 0,
                           stats_rejected = 0, clarification_needed = 0\<rparr>,
                  cooccurrence_rules = None,
                  rag = None\<rparr>
      in case grammar_file of
           None \<Rightarrow> self
         | Some (Inl e) \<Rightarrow> self
         | Some (Inr data) \<Rightarrow>
             (case CooccurrenceRules_load \<lparr>role_function_rules = tbl, raw_data = data\<rparr> of
                Inl e \<Rightarrow> self
              | Inr rules \<Rightarrow>
                  (case rag_system of
                     Inl e \<Rightarrow> self\<lparr>cooccurrence_rules := Some rules\<rparr>
                   | Inr r \<Rightarrow> self\<lparr>cooccurrence_rules := Some rules, rag := Some r\<rparr>)))"

definition validate_structure :: "(string \<times> json) list \<Rightarrow> ValidationError list" where
  "validate_structure semantic_json = []"

definition valid_functions :: "string set" where
  "valid_functions = {''STA'', ''DYN'', ''MNF''}"

text \<open>The four errors of the checks that come before the constraint lookup.\<close>

definition case_type_error :: "json \<Rightarrow> ValidationError" where
  "case_type_error cse =
     \<lparr>level = COHERENCE,
      message = Some (''Case must be a string, got '' @ type_name cse),
      slot = Some ''case'',
      suggestion = Some ''Use a 3-letter case code like AFF, ERG, ABS''\<rparr>"

definition function_type_error :: "json \<Rightarrow> ValidationError" where
  "function_type_error function =
     \<lparr>level = COHERENCE,
      message = Some (''Function must be a string, got '' @ type_name function),
      slot = Some ''function'',
      suggestion = Some ''Use STA for states or DYN for actions''\<rparr>"

definition invalid_function_error :: "string \<Rightarrow> ValidationError" where
  "invalid_function_error function =
     \<lparr>level = COHERENCE,
      message = Some (''Invalid function '' @ [CHR 0x27] @ function @ [CHR 0x27]
                      @ ''. Must be one of: ''
                      @ join '', '' (sorted_list_of_set valid_functions)),
      slot = Some ''function'',
      suggestion = Some ''Use STA for states or DYN for actions''\<rparr>"

definition case_format_error :: "string \<Rightarrow> ValidationError" where
  "case_format_error cse =
     \<lparr>level = COHERENCE,
      message = Some (''Invalid case format '' @ [CHR 0x27] @ cse @ [CHR 0x27]
                      @ ''. Cases are 3-letter uppercase codes like AFF, ERG, ABS''),
      slot = Some ''case'',
      suggestion = Some ''Use a valid case code''\<rparr>"

text \<open>The last stage: the lookup in the constraint store, when there is one.\<close>

definition check_cooccurrence ::
  "(json \<Rightarrow> string) \<Rightarrow> ValidationEngine \<Rightarrow> string \<Rightarrow> string \<Rightarrow> ValidationError list"
where
  "check_cooccurrence other self cse function =
     (case cooccurrence_rules self of
        None \<Rightarrow> []
      | Some rules \<Rightarrow>
          if dict_contains (constraints rules) (JStr cse) then
            (case check_case_function other rules cse function of
               (is_valid, error_msg) \<Rightarrow>
                 if \<not> is_valid then
                   [\<lparr>level = COHERENCE,
                     message = error_msg,
                     slot = Some ''case+function'',
                     suggestion = Some (''Try one of: ''
                        @ join '', '' (sorted_list_of_set (get_allowed_functions rules cse)))\<rparr>]
                 else [])
          else [])"

definition validate_coherence ::
  "(json \<Rightarrow> string) \<Rightarrow> ValidationEngine \<Rightarrow> (string \<times> json) list \<Rightarrow> ValidationError list"
where
  "validate_coherence other self semantic_json =
     (let cse = obj_get semantic_json ''case'' JNull;
          function = obj_get semantic_json ''function'' JNull
      in if \<not> truthy cse \<or> \<not> truthy function then []
         else (case cse of
                 JStr c \<Rightarrow>
                   (case function of
                      JStr f \<Rightarrow>
                        if f \<notin> valid_functions then [invalid_function_error f]
                        else if \<not> (length c = 3 \<and> isupper c \<and> isalpha c)
                          then [case_format_error c]
                        else check_cooccurrence other self c f
                    | _ \<Rightarrow> [function_type_error function])
               | _ \<Rightarrow> [case_type_error cse]))"

record semantic_result =
  sem_errors :: "ValidationError list"
  sem_confidence :: real
  sem_citations :: "string list"

text \<open>The result of the semantic stage when the retriever is not consulted.\<close>

definition semantic_fallback :: semantic_result where
  "semantic_fallback =
     \<lparr>sem_errors = [], sem_confidence = 0.90,
      sem_citations = [''Grammar '' @ [CHR 0xA7] @ ''7 (Cases)'']\<rparr>"

definition validate_semantic :: "ValidationEngine \<Rightarrow> (string \<times> json) list \<Rightarrow> semantic_result" where
  "validate_semantic self semantic_json =
     (let cse = obj_get semantic_json ''case'' JNull
      in case rag self of
           None \<Rightarrow> semantic_fallback
         | Some retrieve_for_case \<Rightarrow>
             (case cse of
                JStr c \<Rightarrow>
                  if truthy cse then
                    (case retrieve_for_case c of
                       Some result \<Rightarrow>
                         \<lparr>sem_errors = [], sem_confidence = 0.95,
                          sem_citations =
                            [rc_citation result,
                             rc_case_name result @ '' ('' @ rc_semantic_role result @ ''): ''
                               @ take 100 (rc_description result) @ ''...'']\<rparr>
                     | None \<Rightarrow>
                         \<lparr>sem_errors = [], sem_confidence = 0.70,
                          sem_citations =
                            [''Warning: Case '' @ c @ '' not found in grammar database'']\<rparr>)
                  else semantic_fallback
              | _ \<Rightarrow> semantic_fallback))"

text \<open>\<^verbatim>\<open>self.stats[key] += 1\<close>, one function per key.\<close>

definition count_total :: "ValidationEngine \<Rightarrow> ValidationEngine" where
  "count_total self =
     self\<lparr>stats := (stats self)\<lparr>total_validations := total_validations (stats self) + 1\<rparr>\<rparr>"

definition count_passed :: "ValidationEngine \<Rightarrow> ValidationEngine" where
  "count_passed self =
     self\<lparr>stats := (stats self)\<lparr>stats_passed := stats_passed (stats self) + 1\<rparr>\<rparr>"

definition count_rejected :: "ValidationEngine \<Rightarrow> ValidationEngine" where
  "count_rejected self =
     self\<lparr>stats := (stats self)\<lparr>stats_rejected := stats_rejected (stats self) + 1\<rparr>\<rparr>"

definition count_clarification :: "ValidationEngine \<Rightarrow> ValidationEngine" where
  "count_clarification self =
     self\<lparr>stats := (stats self)\<lparr>clarification_needed := clarification_needed (stats self) + 1\<rparr>\<rparr>"

text \<open>
  \<^verbatim>\<open>validate\<close> returns the verdict together with the engine, whose counters it has
  changed.
\<close>

definition validate ::
  "(json \<Rightarrow> string) \<Rightarrow> ValidationEngine \<Rightarrow> (string \<times> json) list
     \<Rightarrow> ValidationResult \<times> ValidationEngine"
where
  "validate other self0 semantic_json =
     (let self = count_total self0;
          structure_errors = validate_structure semantic_json;
          errors1 = [] @ structure_errors
      in if structure_errors \<noteq> [] then
           (\<lparr>passed = False, confidence = 0.0, errors = errors1, citations = [],
             needs_clarification = False\<rparr>, count_rejected self)
         else
           (let coherence_errors = validate_coherence other self semantic_json;
                errors2 = errors1 @ coherence_errors
            in if coherence_errors \<noteq> [] then
                 (\<lparr>passed = False, confidence = 0.0, errors = errors2, citations = [],
                   needs_clarification = False\<rparr>, count_rejected self)
               else
                 (let semantic_result = validate_semantic self semantic_json;
                      errors3 = errors2 @ sem_errors semantic_result;
                      conf = sem_confidence semantic_result;
                      cits = sem_citations semantic_result
                  in if errors3 \<noteq> [] then
                       (\<lparr>passed = False, confidence = conf, errors = errors3,
                         citations = cits, needs_clarification = False\<rparr>,
                        count_rejected self)
                     else if conf < 0.85 then
                       (\<lparr>passed = True, confidence = conf, errors = [],
                         citations = cits, needs_clarification = True\<rparr>,
                        count_passed (count_clarification self))
                     else
                       (\<lparr>passed = True, confidence = conf, errors = [],
                         citations = cits, needs_clarification = False\<rparr>,
                        count_passed self))))"


section \<open>Example data\<close>

text \<open>
  A stand-in for the runtime's printing of numbers, lists and dicts. The names and roles
  of the example data are all text, so it is never applied there.
\<close>

definition plain_repr :: "json \<Rightarrow> string" where
  "plain_repr v = ''?''"

text \<open>A small grammar file: two case entries and an entry of another type.\<close>

definition example_grammar :: json where
  "example_grammar =
     JList
      [JObj [(''id'', JStr ''case_aff''), (''type'', JStr ''case''), (''code'', JStr ''AFF''),
             (''name'', JStr ''Affective''), (''semantic_role'', JStr ''EXPERIENCER''),
             (''description'', JStr ''Unwilled experience'')],
       JObj [(''id'', JStr ''case_erg''), (''type'', JStr ''case''), (''code'', JStr ''ERG''),
             (''name'', JStr ''Ergative''), (''semantic_role'', JStr ''AGENT''),
             (''description'', JStr ''Willed action'')],
       JObj [(''id'', JStr ''slot_1''), (''type'', JStr ''slot''), (''code'', JStr ''I'')]]"

text \<open>The constraint mapping that the example file is extracted to.\<close>

definition example_constraints :: "CaseConstraints pydict" where
  "example_constraints =
     [(JStr ''AFF'',
       \<lparr>case_name = JStr ''Affective'', case_abbrev = JStr ''AFF'',
        semantic_role = JStr ''EXPERIENCER'', description = JStr ''Unwilled experience'',
        allowed_functions = {''STA''}, forbidden_functions = {''DYN'', ''MNF''},
        why_not_alternatives = JObj [], common_mistakes = JList []\<rparr>),
      (JStr ''ERG'',
       \<lparr>case_name = JStr ''Ergative'', case_abbrev = JStr ''ERG'',
        semantic_role = JStr ''AGENT'', description = JStr ''Willed action'',
        allowed_functions = {''DYN'', ''MNF''}, forbidden_functions = {''STA''},
        why_not_alternatives = JObj [], common_mistakes = JList []\<rparr>)]"

text \<open>A retriever that knows the two cases of the example file.\<close>

definition example_rag :: RAGSystem where
  "example_rag code =
     (if code = ''AFF'' then
        Some \<lparr>rc_case_code = ''AFF'', rc_case_name = ''Affective'',
              rc_semantic_role = ''EXPERIENCER'', rc_description = ''Unwilled experience'',
              rc_citation = ''Grammar 7.2'', rc_score = 1\<rparr>
      else if code = ''ERG'' then
        Some \<lparr>rc_case_code = ''ERG'', rc_case_name = ''Ergative'',
              rc_semantic_role = ''AGENT'', rc_description = ''Willed action'',
              rc_citation = ''Grammar 7.1'', rc_score = 1\<rparr>
      else None)"

text \<open>The engine built from the example file with that retriever.\<close>

definition example_engine :: ValidationEngine where
  "example_engine = ValidationEngine_init [] (Some (Inr example_grammar)) (Inr example_rag)"

text \<open>
  An inconsistent role table: the experiencer rule allows and forbids the same
  function.
\<close>

definition conflicting_table :: "(string \<times> role_rule) list" where
  "conflicting_table = [(''EXPERIENCER'', \<lparr>allowed = {''STA''}, forbidden = {''STA''}\<rparr>)]"

text \<open>The engine built from the example file under the inconsistent table.\<close>

definition conflicting_engine :: ValidationEngine where
  "conflicting_engine =
     ValidationEngine_init_with conflicting_table [] (Some (Inr example_grammar)) (Inr example_rag)"

text \<open>A grammar file whose only case entry has a lower-case code.\<close>

definition lowercase_grammar :: json where
  "lowercase_grammar =
     JList
      [JObj [(''id'', JStr ''case_aff''), (''type'', JStr ''case''), (''code'', JStr ''aff''),
             (''name'', JStr ''Affective''), (''semantic_role'', JStr ''EXPERIENCER''),
             (''description'', JStr ''Unwilled experience'')]]"

text \<open>The engine built from that file.\<close>

definition lowercase_engine :: ValidationEngine where
  "lowercase_engine = ValidationEngine_init [] (Some (Inr lowercase_grammar)) (Inr example_rag)"


section \<open>Auxiliary facts\<close>

lemma py_eq_JStr [simp]: "py_eq (JStr a) k = (k = JStr a)" "py_eq k (JStr a) = (k = JStr a)"
  by (cases k; auto simp: py_eq_def)+

lemma extract_example:
  "extract_case_constraints (RuleExtractor_init example_grammar) = Inr example_constraints"
  by (simp add: extract_case_constraints_def RuleExtractor_init_def example_grammar_def
      example_constraints_def obj_get_def make_constraint_def ROLE_FUNCTION_RULES_def)

lemma init_example:
  "CooccurrenceRules_init example_grammar =
     Inr \<lparr>extractor = RuleExtractor_init example_grammar, constraints = example_constraints\<rparr>"
  apply (simp add: CooccurrenceRules_init_def CooccurrenceRules_load_def validate_rules_def extract_example)
  apply (simp add: example_constraints_def)
  done

lemma check_cooccurrence_cong:
  "cooccurrence_rules e' = cooccurrence_rules e \<Longrightarrow>
   check_cooccurrence other e' = check_cooccurrence other e"
  by (intro ext) (simp add: check_cooccurrence_def)

lemma validate_coherence_cong:
  assumes "cooccurrence_rules e' = cooccurrence_rules e"
  shows "validate_coherence other e' j = validate_coherence other e j"
  unfolding validate_coherence_def check_cooccurrence_cong [OF assms] ..

lemma validate_semantic_cong:
  "rag e' = rag e \<Longrightarrow> validate_semantic e' j = validate_semantic e j"
  by (simp add: validate_semantic_def)

lemma sem_errors_empty: "sem_errors (validate_semantic e j) = []"
  by (simp add: validate_semantic_def semantic_fallback_def Let_def
      split: option.splits json.splits)

lemma count_total_fields [simp]:
  "cooccurrence_rules (count_total e) = cooccurrence_rules e"
  "rag (count_total e) = rag e"
  "grammar_kb (count_total e) = grammar_kb e"
  by (simp_all add: count_total_def)

lemma validate_verdict:
  "fst (validate other e j) =
     (if validate_coherence other e j \<noteq> [] then
        \<lparr>passed = False, confidence = 0, errors = validate_coherence other e j,
         citations = [], needs_clarification = False\<rparr>
      else
        \<lparr>passed = True, confidence = sem_confidence (validate_semantic e j), errors = [],
         citations = sem_citations (validate_semantic e j),
         needs_clarification = (sem_confidence (validate_semantic e j) < 0.85)\<rparr>)"
proof -
  have c: "validate_coherence other (count_total e) j = validate_coherence other e j"
    by (rule validate_coherence_cong) simp
  have s: "validate_semantic (count_total e) j = validate_semantic e j"
    by (rule validate_semantic_cong) simp
  show ?thesis
    by (simp add: validate_def validate_structure_def Let_def c s sem_errors_empty)
qed

lemma validate_engine:
  "snd (validate other e j) =
     (if validate_coherence other e j \<noteq> [] then count_rejected (count_total e)
      else if sem_confidence (validate_semantic e j) < 0.85
        then count_passed (count_clarification (count_total e))
      else count_passed (count_total e))"
proof -
  have c: "validate_coherence other (count_total e) j = validate_coherence other e j"
    by (rule validate_coherence_cong) simp
  have s: "validate_semantic (count_total e) j = validate_semantic e j"
    by (rule validate_semantic_cong) simp
  show ?thesis
    by (simp add: validate_def validate_structure_def Let_def c s sem_errors_empty)
qed

lemma validate_keeps_rules:
  "cooccurrence_rules (snd (validate other e j)) = cooccurrence_rules e"
  "rag (snd (validate other e j)) = rag e"
  "grammar_kb (snd (validate other e j)) = grammar_kb e"
  by (simp_all add: validate_engine count_passed_def count_rejected_def
      count_clarification_def count_total_def)

lemma errors_validate: "errors (fst (validate other e j)) = validate_coherence other e j"
  by (simp add: validate_verdict)

lemma passed_validate: "passed (fst (validate other e j)) = (validate_coherence other e j = [])"
  by (simp add: validate_verdict)



lemma validate_coherence_case_type:
  "truthy (obj_get j ''case'' JNull) \<Longrightarrow> truthy (obj_get j ''function'' JNull) \<Longrightarrow>
   \<not> is_str (obj_get j ''case'' JNull) \<Longrightarrow>
   validate_coherence other e j = [case_type_error (obj_get j ''case'' JNull)]"
  by (cases "obj_get j ''case'' JNull") (simp_all add: validate_coherence_def Let_def)


lemma validate_coherence_text:
  "obj_get j ''case'' JNull = JStr c \<Longrightarrow> obj_get j ''function'' JNull = JStr f \<Longrightarrow>
   c \<noteq> [] \<Longrightarrow> f \<noteq> [] \<Longrightarrow>
   validate_coherence other e j =
     (if f \<notin> valid_functions then [invalid_function_error f]
      else if \<not> (length c = 3 \<and> isupper c \<and> isalpha c) then [case_format_error c]
      else check_cooccurrence other e c f)"
  by (simp add: validate_coherence_def Let_def)

lemma dict_set_pres:
  "list_all (\<lambda>kv. P (snd kv)) d \<Longrightarrow> P v \<Longrightarrow> list_all (\<lambda>kv. P (snd kv)) (dict_set k v d)"
  by (induction d) auto

lemma dict_get_pres:
  "dict_get d k = Some v \<Longrightarrow> list_all (\<lambda>kv. P (snd kv)) d \<Longrightarrow> P v"
  by (induction d) (auto split: if_splits)

lemma extract_loop_pres:
  "\<forall>cd. P (make_constraint tbl cd) \<Longrightarrow> extract_loop tbl items d = Inr d' \<Longrightarrow>
   list_all (\<lambda>kv. P (snd kv)) d \<Longrightarrow> list_all (\<lambda>kv. P (snd kv)) d'"
proof (induction tbl items d rule: extract_loop.induct)
  case (1 tbl constraints)
  then show ?case by simp
next
  case (2 tbl case_data rest constraints)
  from "2.prems"(2) have h: "hashable (obj_get case_data ''semantic_role'' (JStr ''UNKNOWN''))"
    "hashable (obj_get case_data ''code'' JNull)"
    by (auto split: if_splits)
  with "2.prems"(2) have run: "extract_loop tbl rest
      (dict_set (obj_get case_data ''code'' JNull) (make_constraint tbl case_data) constraints) = Inr d'"
    by simp
  from "2.prems"(1) have "P (make_constraint tbl case_data)" by simp
  with "2.prems"(3) have "list_all (\<lambda>kv. P (snd kv))
      (dict_set (obj_get case_data ''code'' JNull) (make_constraint tbl case_data) constraints)"
    by (rule dict_set_pres)
  with "2.IH" h run "2.prems"(1) show ?case by simp
qed simp_all

lemma extract_pres:
  assumes "extract_case_constraints ex = Inr cs"
    and "\<forall>cd. P (make_constraint (role_function_rules ex) cd)"
  shows "list_all (\<lambda>kv. P (snd kv)) cs"
proof -
  from assms(1) obtain cases where
    "extract_loop (role_function_rules ex) cases [] = Inr cs"
    by (auto simp: extract_case_constraints_def split: sum.splits)
  with assms(2) show ?thesis
    by (rule extract_loop_pres) simp
qed

lemma make_constraint_rule:
  "allowed_functions (make_constraint tbl cd)
     = allowed (rules_get tbl (semantic_role (make_constraint tbl cd)))
   \<and> forbidden_functions (make_constraint tbl cd)
     = forbidden (rules_get tbl (semantic_role (make_constraint tbl cd)))"
  by (simp add: make_constraint_def Let_def)

lemma experiencer_rule:
  "rules_get ROLE_FUNCTION_RULES (JStr ''EXPERIENCER'')
     = \<lparr>allowed = {''STA''}, forbidden = {''DYN'', ''MNF''}\<rparr>"
  by (simp add: ROLE_FUNCTION_RULES_def)

lemma init_constraints:
  "CooccurrenceRules_init data = Inr rules \<Longrightarrow>
   extract_case_constraints (RuleExtractor_init data) = Inr (constraints rules)"
  by (auto simp: CooccurrenceRules_init_def CooccurrenceRules_load_def
      split: sum.splits if_splits)

lemma experiencer_record:
  assumes "CooccurrenceRules_init data = Inr rules"
    and "dict_get (constraints rules) (JStr code) = Some r"
    and "semantic_role r = JStr ''EXPERIENCER''"
  shows "allowed_functions r = {''STA''}" "forbidden_functions r = {''DYN'', ''MNF''}"
proof -
  let ?P = "\<lambda>c. allowed_functions c = allowed (rules_get ROLE_FUNCTION_RULES (semantic_role c))
     \<and> forbidden_functions c = forbidden (rules_get ROLE_FUNCTION_RULES (semantic_role c))"
  have "list_all (\<lambda>kv. ?P (snd kv)) (constraints rules)"
    by (rule extract_pres [OF init_constraints [OF assms(1)]])
       (simp add: RuleExtractor_init_def make_constraint_rule)
  with assms(2) have "?P r" by (rule dict_get_pres)
  with assms(3) show "allowed_functions r = {''STA''}" "forbidden_functions r = {''DYN'', ''MNF''}"
    using experiencer_rule by simp_all
qed

lemma sta_valid: "''STA'' \<in> valid_functions" "''DYN'' \<in> valid_functions" "''MNF'' \<in> valid_functions"
  by (simp_all add: valid_functions_def)

lemma coherence_known_case:
  assumes "cooccurrence_rules e = Some rules"
    and "dict_get (constraints rules) (JStr code) = Some r"
    and "length code = 3 \<and> isupper code \<and> isalpha code"
    and "f \<in> valid_functions"
  shows "validate_coherence other e [(''case'', JStr code), (''function'', JStr f)] =
     (if allows_function r f then []
      else [\<lparr>level = COHERENCE,
              message = snd (check_case_function other rules code f),
              slot = Some ''case+function'',
              suggestion = Some (''Try one of: ''
                 @ join '', '' (sorted_list_of_set (allowed_functions r)))\<rparr>])"
proof -
  from assms(3) have c: "code \<noteq> []" by auto
  from assms(4) have f: "f \<noteq> []" by (auto simp: valid_functions_def)
  have "validate_coherence other e [(''case'', JStr code), (''function'', JStr f)]
      = check_cooccurrence other e code f"
    using assms(3,4) c f
    by (subst validate_coherence_text [of _ code f]) (simp_all add: obj_get_def)
  also have "\<dots> = (if allows_function r f then []
      else [\<lparr>level = COHERENCE,
              message = snd (check_case_function other rules code f),
              slot = Some ''case+function'',
              suggestion = Some (''Try one of: ''
                 @ join '', '' (sorted_list_of_set (allowed_functions r)))\<rparr>])"
    using assms(1,2)
    by (simp add: check_cooccurrence_def dict_contains_def check_case_function_def
        get_allowed_functions_def Let_def)
  finally show ?thesis .
qed

lemma table_consistent:
  "list_all (\<lambda>kr. allowed (snd kr) \<inter> forbidden (snd kr) = {}) ROLE_FUNCTION_RULES"
  by (simp add: ROLE_FUNCTION_RULES_def)

lemma rules_get_consistent:
  "allowed (rules_get ROLE_FUNCTION_RULES v) \<inter> forbidden (rules_get ROLE_FUNCTION_RULES v) = {}"
proof (cases v)
  case (JStr role)
  show ?thesis
  proof (cases "map_of ROLE_FUNCTION_RULES role")
    case None
    with JStr show ?thesis by (simp add: default_rule_def)
  next
    case (Some r)
    then have "(role, r) \<in> set ROLE_FUNCTION_RULES" by (rule map_of_SomeD)
    with table_consistent have "allowed (snd (role, r)) \<inter> forbidden (snd (role, r)) = {}"
      unfolding list_all_iff by (rule bspec)
    then have "allowed r \<inter> forbidden r = {}" by simp
    with JStr Some show ?thesis by simp
  qed
qed (simp_all add: default_rule_def)

lemma no_conflicts_iff:
  "no_conflicts cs
     = list_all (\<lambda>kv. allowed_functions (snd kv) \<inter> forbidden_functions (snd kv) = {}) cs"
  by (induction cs rule: no_conflicts.induct) simp_all

lemma extract_consistent:
  assumes "extract_case_constraints (RuleExtractor_init data) = Inr cs"
  shows "list_all (\<lambda>kv. allowed_functions (snd kv) \<inter> forbidden_functions (snd kv) = {}) cs"
  by (rule extract_pres [OF assms])
     (simp add: RuleExtractor_init_def make_constraint_rule rules_get_consistent)

lemma load_conflict:
  assumes "extract_case_constraints ex = Inr cs"
    and "list_ex (\<lambda>kv. allowed_functions (snd kv) \<inter> forbidden_functions (snd kv) \<noteq> {}) cs"
  shows "CooccurrenceRules_load ex = Inl ValueError"
proof -
  from assms(2) have "\<not> no_conflicts cs"
    by (auto simp: no_conflicts_iff list_all_iff list_ex_iff)
  with assms(1) show ?thesis
    by (simp add: CooccurrenceRules_load_def validate_rules_def)
qed

lemma engine_rules:
  "cooccurrence_rules (ValidationEngine_init kb grammar_file rag_system) =
     (case grammar_file of
        Some (Inr data) \<Rightarrow>
          (case CooccurrenceRules_init data of Inl e \<Rightarrow> None | Inr rules \<Rightarrow> Some rules)
      | _ \<Rightarrow> None)"
  by (simp add: ValidationEngine_init_def Let_def split: option.splits sum.splits)

lemma select_cases_records:
  "list_all (\<lambda>i. type_name i = ''dict'') items \<Longrightarrow>
   \<exists>cs. select_cases items = Inr cs \<and> set cs \<subseteq> set items"
proof (induction items)
  case Nil
  then show ?case by simp
next
  case (Cons item items)
  then obtain kvs where "item = JObj kvs" by (cases item) simp_all
  with Cons show ?case by auto
qed

lemma extract_loop_records:
  "\<forall>kvs. JObj kvs \<in> set items \<longrightarrow>
       hashable (obj_get kvs ''code'' JNull)
       \<and> hashable (obj_get kvs ''semantic_role'' (JStr ''UNKNOWN'')) \<Longrightarrow>
   list_all (\<lambda>i. type_name i = ''dict'') items \<Longrightarrow>
   \<exists>cs. extract_loop tbl items d = Inr cs"
proof (induction tbl items d rule: extract_loop.induct)
  case (1 tbl constraints)
  then show ?case by simp
next
  case (2 tbl case_data rest constraints)
  then show ?case by simp
qed simp_all

lemma select_cases_not_record:
  "list_ex (\<lambda>i. type_name i \<noteq> ''dict'') items \<Longrightarrow> select_cases items = Inl AttributeError"
proof (induction items)
  case Nil
  then show ?case by simp
next
  case (Cons item items)
  show ?case
  proof (cases "type_name item = ''dict''")
    case True
    then obtain kvs where "item = JObj kvs" by (cases item) simp_all
    with Cons True show ?thesis by simp
  next
    case False
    then show ?thesis by (cases item) simp_all
  qed
qed

lemma example_engine_fields:
  "cooccurrence_rules example_engine =
     Some \<lparr>extractor = RuleExtractor_init example_grammar, constraints = example_constraints\<rparr>"
  "rag example_engine = Some example_rag"
  "stats example_engine = \<lparr>total_validations = 0, stats_passed = 0,
                            stats_rejected = 0, clarification_needed = 0\<rparr>"
  by (simp_all add: example_engine_def ValidationEngine_init_def init_example)

lemma example_lookup:
  "dict_get example_constraints (JStr ''AFF'') =
     Some \<lparr>case_name = JStr ''Affective'', case_abbrev = JStr ''AFF'',
           semantic_role = JStr ''EXPERIENCER'', description = JStr ''Unwilled experience'',
           allowed_functions = {''STA''}, forbidden_functions = {''DYN'', ''MNF''},
           why_not_alternatives = JObj [], common_mistakes = JList []\<rparr>"
  "dict_get example_constraints (JStr ''XYZ'') = None"
  by (simp_all add: example_constraints_def)

lemma format_ok: "length ''AFF'' = 3 \<and> isupper ''AFF'' \<and> isalpha ''AFF''"
  "length ''XYZ'' = 3 \<and> isupper ''XYZ'' \<and> isalpha ''XYZ''"
  by (simp_all add: isupper_def isalpha_def is_upper_cp_def is_lower_cp_def is_alpha_cp_def)

lemma example_coherence:
  "validate_coherence plain_repr example_engine
     [(''case'', JStr ''AFF''), (''function'', JStr ''STA'')] = []"
  "validate_coherence plain_repr example_engine
     [(''case'', JStr ''AFF''), (''function'', JStr ''DYN'')] \<noteq> []"
  "validate_coherence plain_repr example_engine
     [(''case'', JStr ''XYZ''), (''function'', JStr ''STA'')] = []"
  "validate_coherence plain_repr example_engine [(''case'', JInt 123)] = []"
proof -
  show "validate_coherence plain_repr example_engine
     [(''case'', JStr ''AFF''), (''function'', JStr ''STA'')] = []"
    by (simp add: coherence_known_case [OF example_engine_fields(1) _ format_ok(1) sta_valid(1)]
        example_lookup allows_function_def)
  show "validate_coherence plain_repr example_engine
     [(''case'', JStr ''AFF''), (''function'', JStr ''DYN'')] \<noteq> []"
    by (simp add: coherence_known_case [OF example_engine_fields(1) _ format_ok(1) sta_valid(2)]
        example_lookup allows_function_def)
  show "validate_coherence plain_repr example_engine
     [(''case'', JStr ''XYZ''), (''function'', JStr ''STA'')] = []"
    by (simp add: validate_coherence_text [of _ "''XYZ''" "''STA''"] obj_get_def format_ok
        sta_valid check_cooccurrence_def example_engine_fields dict_contains_def example_lookup)
  show "validate_coherence plain_repr example_engine [(''case'', JInt 123)] = []"
    by (simp add: validate_coherence_def obj_get_def)
qed

lemma example_semantic:
  "sem_confidence (validate_semantic example_engine
     [(''case'', JStr ''AFF''), (''function'', JStr ''STA'')]) = 0.95"
  "sem_confidence (validate_semantic example_engine
     [(''case'', JStr ''XYZ''), (''function'', JStr ''STA'')]) = 0.70"
  "sem_confidence (validate_semantic example_engine [(''case'', JInt 123)]) = 0.90"
  by (simp_all add: validate_semantic_def example_engine_fields obj_get_def example_rag_def
      semantic_fallback_def)

lemma py_eq_refl: "py_eq a a"
  by (simp add: py_eq_def split: option.splits)

lemma py_eq_trans: "py_eq a b \<Longrightarrow> py_eq b c \<Longrightarrow> py_eq a c"
  by (auto simp: py_eq_def split: option.splits)

lemma dict_set_mem:
  "(k', c) \<in> set (dict_set k v d) \<Longrightarrow> (k', c) \<in> set d \<or> (c = v \<and> py_eq k' k)"
  by (induction d) (auto simp: py_eq_refl split: if_splits)

lemma dict_contains_set:
  "dict_contains (dict_set k v d) k' = (dict_contains d k' \<or> py_eq k k')"
proof (induction d)
  case Nil
  show ?case by (simp add: dict_contains_def)
next
  case (Cons kv d)
  obtain a b where kv: "kv = (a, b)" by (cases kv)
  show ?case
  proof (cases "py_eq a k")
    case True
    then have "py_eq k k' \<Longrightarrow> py_eq a k'" by (rule py_eq_trans)
    with True kv show ?thesis by (auto simp: dict_contains_def)
  next
    case False
    with Cons kv show ?thesis by (auto simp: dict_contains_def)
  qed
qed

lemma select_cases_mem:
  "select_cases items = Inr cs \<Longrightarrow>
   (i \<in> set cs) = (\<exists>kvs. i = JObj kvs \<and> i \<in> set items \<and> obj_get kvs ''type'' JNull = JStr ''case'')"
proof (induction items arbitrary: cs)
  case Nil
  then show ?case by auto
next
  case (Cons item items)
  from Cons.prems obtain kvs where item: "item = JObj kvs"
    by (cases item) simp_all
  from Cons.prems item obtain cs' where cs': "select_cases items = Inr cs'"
    by (auto split: sum.splits)
  note IH = Cons.IH [OF cs']
  from Cons.prems item cs'
  have "cs = (if obj_get kvs ''type'' JNull = JStr ''case'' then item # cs' else cs')"
    by (auto split: if_splits)
  with IH item show ?case by auto
qed

lemma extract_loop_origin:
  "extract_loop tbl items d = Inr d' \<Longrightarrow> (k, c) \<in> set d' \<Longrightarrow>
   (k, c) \<in> set d
   \<or> (\<exists>kvs. JObj kvs \<in> set items \<and> c = make_constraint tbl kvs
              \<and> py_eq k (obj_get kvs ''code'' JNull))"
proof (induction tbl items d rule: extract_loop.induct)
  case (1 tbl constraints)
  then show ?case by simp
next
  case (2 tbl case_data rest constraints)
  from "2.prems"(1) have h: "hashable (obj_get case_data ''semantic_role'' (JStr ''UNKNOWN''))"
    "hashable (obj_get case_data ''code'' JNull)"
    by (auto split: if_splits)
  with "2.prems"(1) have run: "extract_loop tbl rest
      (dict_set (obj_get case_data ''code'' JNull) (make_constraint tbl case_data) constraints) = Inr d'"
    by simp
  from "2.IH" [OF _ _ run "2.prems"(2)] h
  consider "(k, c) \<in> set (dict_set (obj_get case_data ''code'' JNull)
                (make_constraint tbl case_data) constraints)"
    | "\<exists>kvs. JObj kvs \<in> set rest \<and> c = make_constraint tbl kvs
              \<and> py_eq k (obj_get kvs ''code'' JNull)"
    by auto
  then show ?case
  proof cases
    case 1
    then show ?thesis using dict_set_mem by fastforce
  next
    case 2
    then show ?thesis by auto
  qed
qed simp_all

lemma extract_loop_contains:
  "extract_loop tbl items d = Inr d' \<Longrightarrow>
   dict_contains d' k =
     (dict_contains d k \<or> (\<exists>kvs. JObj kvs \<in> set items \<and> py_eq (obj_get kvs ''code'' JNull) k))"
proof (induction tbl items d rule: extract_loop.induct)
  case (1 tbl constraints)
  then show ?case by simp
next
  case (2 tbl case_data rest constraints)
  from "2.prems"(1) have h: "hashable (obj_get case_data ''semantic_role'' (JStr ''UNKNOWN''))"
    "hashable (obj_get case_data ''code'' JNull)"
    by (auto split: if_splits)
  with "2.prems"(1) have run: "extract_loop tbl rest
      (dict_set (obj_get case_data ''code'' JNull) (make_constraint tbl case_data) constraints) = Inr d'"
    by simp
  from "2.IH" [OF _ _ run] h show ?case
    by (auto simp: dict_contains_set)
qed simp_all

lemma extract_loop_unhashable:
  "list_all (\<lambda>i. type_name i = ''dict'') items \<Longrightarrow>
   \<exists>kvs. JObj kvs \<in> set items
        \<and> (\<not> hashable (obj_get kvs ''code'' JNull)
            \<or> \<not> hashable (obj_get kvs ''semantic_role'' (JStr ''UNKNOWN''))) \<Longrightarrow>
   extract_loop tbl items d = Inl TypeError"
proof (induction tbl items d rule: extract_loop.induct)
  case (1 tbl constraints)
  then show ?case by simp
next
  case (2 tbl case_data rest constraints)
  then show ?case by auto
qed simp_all

lemma make_constraint_fields:
  "make_constraint tbl kvs =
     \<lparr>case_name = (case map_of kvs ''name'' of
                     None \<Rightarrow> (case map_of kvs ''code'' of None \<Rightarrow> JNull | Some v \<Rightarrow> v)
                   | Some v \<Rightarrow> v),
      case_abbrev = (case map_of kvs ''code'' of None \<Rightarrow> JNull | Some v \<Rightarrow> v),
      semantic_role = (case map_of kvs ''semantic_role'' of
                         None \<Rightarrow> JStr ''UNKNOWN'' | Some v \<Rightarrow> v),
      description = (case map_of kvs ''description'' of None \<Rightarrow> JStr [] | Some v \<Rightarrow> v),
      allowed_functions =
        allowed (rules_get tbl (case map_of kvs ''semantic_role'' of
                                  None \<Rightarrow> JStr ''UNKNOWN'' | Some v \<Rightarrow> v)),
      forbidden_functions =
        forbidden (rules_get tbl (case map_of kvs ''semantic_role'' of
                                    None \<Rightarrow> JStr ''UNKNOWN'' | Some v \<Rightarrow> v)),
      why_not_alternatives =
        (case map_of kvs ''why_not_alternatives'' of None \<Rightarrow> JObj [] | Some v \<Rightarrow> v),
      common_mistakes =
        (case map_of kvs ''common_mistakes'' of None \<Rightarrow> JList [] | Some v \<Rightarrow> v)\<rparr>"
  by (simp add: make_constraint_def obj_get_def Let_def)

lemma extract_list:
  "extract_case_constraints (RuleExtractor_init (JList items)) =
     (case select_cases items of
        Inl e \<Rightarrow> Inl e
      | Inr cases \<Rightarrow> extract_loop ROLE_FUNCTION_RULES cases [])"
  by (simp add: extract_case_constraints_def RuleExtractor_init_def split: sum.splits)

lemma obj_get_type:
  "(obj_get kvs ''type'' JNull = JStr ''case'') = (map_of kvs ''type'' = Some (JStr ''case''))"
  by (simp add: obj_get_def split: option.splits)

lemma extract_record_origin:
  assumes "extract_case_constraints (RuleExtractor_init (JList items)) = Inr cs"
    and "(k, c) \<in> set cs"
  shows "\<exists>kvs. JObj kvs \<in> set items \<and> map_of kvs ''type'' = Some (JStr ''case'')
           \<and> py_eq k (case map_of kvs ''code'' of None \<Rightarrow> JNull | Some v \<Rightarrow> v)
           \<and> c = make_constraint ROLE_FUNCTION_RULES kvs"
proof -
  from assms(1) obtain cases where sel: "select_cases items = Inr cases"
    and loop: "extract_loop ROLE_FUNCTION_RULES cases [] = Inr cs"
    by (auto simp: extract_list split: sum.splits)
  from extract_loop_origin [OF loop assms(2)] obtain kvs where
    kvs: "JObj kvs \<in> set cases" "c = make_constraint ROLE_FUNCTION_RULES kvs"
      "py_eq k (obj_get kvs ''code'' JNull)"
    by auto
  from kvs(1) select_cases_mem [OF sel, of "JObj kvs"]
  have "JObj kvs \<in> set items" "map_of kvs ''type'' = Some (JStr ''case'')"
    by (auto simp: obj_get_type)
  with kvs show ?thesis by (auto simp: obj_get_def)
qed

lemma extract_entry_known:
  assumes "extract_case_constraints (RuleExtractor_init (JList items)) = Inr cs"
    and "JObj kvs \<in> set items" and "map_of kvs ''type'' = Some (JStr ''case'')"
  shows "dict_contains cs (case map_of kvs ''code'' of None \<Rightarrow> JNull | Some v \<Rightarrow> v)"
proof -
  from assms(1) obtain cases where sel: "select_cases items = Inr cases"
    and loop: "extract_loop ROLE_FUNCTION_RULES cases [] = Inr cs"
    by (auto simp: extract_list split: sum.splits)
  from assms(2,3) select_cases_mem [OF sel, of "JObj kvs"]
  have "JObj kvs \<in> set cases" by (auto simp: obj_get_type)
  then show ?thesis
    unfolding extract_loop_contains [OF loop]
    by (auto simp: obj_get_def py_eq_refl intro!: exI [of _ kvs])
qed

lemma extract_unhashable:
  assumes "list_all (\<lambda>i. type_name i = ''dict'') items"
    and "JObj kvs \<in> set items" and "map_of kvs ''type'' = Some (JStr ''case'')"
    and "\<not> hashable (case map_of kvs ''code'' of None \<Rightarrow> JNull | Some v \<Rightarrow> v)
         \<or> \<not> hashable (case map_of kvs ''semantic_role'' of
                           None \<Rightarrow> JStr ''UNKNOWN'' | Some v \<Rightarrow> v)"
  shows "extract_case_constraints (RuleExtractor_init (JList items)) = Inl TypeError"
proof -
  from select_cases_records [OF assms(1)] obtain cases where
    sel: "select_cases items = Inr cases" and sub: "set cases \<subseteq> set items"
    by auto
  from sub assms(1) have dicts: "list_all (\<lambda>i. type_name i = ''dict'') cases"
    by (auto simp: list_all_iff)
  from assms(2,3) select_cases_mem [OF sel, of "JObj kvs"]
  have "JObj kvs \<in> set cases" by (auto simp: obj_get_type)
  with assms(4) have "\<exists>kvs. JObj kvs \<in> set cases
        \<and> (\<not> hashable (obj_get kvs ''code'' JNull)
            \<or> \<not> hashable (obj_get kvs ''semantic_role'' (JStr ''UNKNOWN'')))"
    by (auto simp: obj_get_def intro!: exI [of _ kvs])
  with dicts have "extract_loop ROLE_FUNCTION_RULES cases [] = Inl TypeError"
    by (rule extract_loop_unhashable)
  with sel show ?thesis by (simp add: extract_list)
qed

lemma engine_init_table:
  "ValidationEngine_init kb grammar_file rag_system
     = ValidationEngine_init_with ROLE_FUNCTION_RULES kb grammar_file rag_system"
  unfolding ValidationEngine_init_def ValidationEngine_init_with_def
    CooccurrenceRules_init_def RuleExtractor_init_def ..

lemma engine_with_rules:
  "cooccurrence_rules (ValidationEngine_init_with tbl kb grammar_file rag_system) =
     (case grammar_file of
        Some (Inr data) \<Rightarrow>
          (case CooccurrenceRules_load \<lparr>role_function_rules = tbl, raw_data = data\<rparr> of
             Inl e \<Rightarrow> None | Inr rules \<Rightarrow> Some rules)
      | _ \<Rightarrow> None)"
  by (simp add: ValidationEngine_init_with_def Let_def split: option.splits sum.splits)

lemma engine_with_failed_load:
  "CooccurrenceRules_load \<lparr>role_function_rules = tbl, raw_data = data\<rparr> = Inl e \<Longrightarrow>
   ValidationEngine_init_with tbl kb (Some (Inr data)) rag_system =
     \<lparr>grammar_kb = kb,
      stats = \<lparr>total_validations = 0, stats_passed = 0,
               stats_rejected = 0, clarification_needed = 0\<rparr>,
      cooccurrence_rules = None, rag = None\<rparr>"
  by (simp add: ValidationEngine_init_with_def)

lemma load_consistent:
  assumes "CooccurrenceRules_load ex = Inr rules"
  shows "list_all (\<lambda>kv. allowed_functions (snd kv) \<inter> forbidden_functions (snd kv) = {})
           (constraints rules)"
proof -
  from assms have "no_conflicts (constraints rules)"
    by (auto simp: CooccurrenceRules_load_def validate_rules_def split: sum.splits if_splits)
  then show ?thesis by (simp add: no_conflicts_iff)
qed

lemma conflicting_extract:
  "extract_case_constraints \<lparr>role_function_rules = conflicting_table, raw_data = example_grammar\<rparr> =
      Inr [(JStr ''AFF'',
       \<lparr>case_name = JStr ''Affective'', case_abbrev = JStr ''AFF'',
        semantic_role = JStr ''EXPERIENCER'', description = JStr ''Unwilled experience'',
        allowed_functions = {''STA''}, forbidden_functions = {''STA''},
        why_not_alternatives = JObj [], common_mistakes = JList []\<rparr>),
      (JStr ''ERG'',
       \<lparr>case_name = JStr ''Ergative'', case_abbrev = JStr ''ERG'',
        semantic_role = JStr ''AGENT'', description = JStr ''Willed action'',
        allowed_functions = {''STA'', ''DYN'', ''MNF''}, forbidden_functions = {},
        why_not_alternatives = JObj [], common_mistakes = JList []\<rparr>)]"
  by (simp add: extract_case_constraints_def conflicting_table_def example_grammar_def
      obj_get_def make_constraint_def default_rule_def)

lemma conflicting_load:
  "CooccurrenceRules_load \<lparr>role_function_rules = conflicting_table, raw_data = example_grammar\<rparr>
     = Inl ValueError"
  by (simp add: CooccurrenceRules_load_def validate_rules_def conflicting_extract)

lemma lowercase_rules:
  "cooccurrence_rules lowercase_engine =
     Some \<lparr>extractor = RuleExtractor_init lowercase_grammar,
           constraints =
             [(JStr ''aff'',
               \<lparr>case_name = JStr ''Affective'', case_abbrev = JStr ''aff'',
                semantic_role = JStr ''EXPERIENCER'', description = JStr ''Unwilled experience'',
                allowed_functions = {''STA''}, forbidden_functions = {''DYN'', ''MNF''},
                why_not_alternatives = JObj [], common_mistakes = JList []\<rparr>)]\<rparr>"
proof -
  have x: "extract_case_constraints (RuleExtractor_init lowercase_grammar) =
      Inr [(JStr ''aff'',
               \<lparr>case_name = JStr ''Affective'', case_abbrev = JStr ''aff'',
                semantic_role = JStr ''EXPERIENCER'', description = JStr ''Unwilled experience'',
                allowed_functions = {''STA''}, forbidden_functions = {''DYN'', ''MNF''},
                why_not_alternatives = JObj [], common_mistakes = JList []\<rparr>)]"
    by (simp add: extract_case_constraints_def RuleExtractor_init_def lowercase_grammar_def
        obj_get_def make_constraint_def ROLE_FUNCTION_RULES_def)
  show ?thesis
    by (simp add: lowercase_engine_def engine_rules CooccurrenceRules_init_def
        CooccurrenceRules_load_def validate_rules_def x)
qed

lemma unknown_rule:
  "rules_get ROLE_FUNCTION_RULES (JStr ''UNKNOWN'')
     = \<lparr>allowed = {''STA'', ''DYN'', ''MNF''}, forbidden = {}\<rparr>"
  by (simp add: ROLE_FUNCTION_RULES_def default_rule_def)

lemma extract_single:
  assumes "map_of kvs ''type'' = Some (JStr ''case'')"
    and "hashable (obj_get kvs ''code'' JNull)"
    and "hashable (obj_get kvs ''semantic_role'' (JStr ''UNKNOWN''))"
  shows "extract_case_constraints (RuleExtractor_init (JList [JObj kvs])) =
           Inr [(obj_get kvs ''code'' JNull, make_constraint ROLE_FUNCTION_RULES kvs)]"
  using assms by (simp add: extract_list obj_get_type [symmetric])


section \<open>The claims\<close>

subsection \<open>Compatibility query of the constraint store\<close>

text \<open>
  Claim C1. For every case code and function, the compatibility query answers valid when
  the code is not a key of the constraint mapping. For a known code it answers invalid
  when the function is in the record's forbidden set, or when the record's allowed set
  is non-empty and the function is not in it; otherwise it answers valid.
\<close>

theorem check_case_function_valid:
  "fst (check_case_function other self cse function) =
     (case dict_get (constraints self) (JStr cse) of
        None \<Rightarrow> True
      | Some c \<Rightarrow>
          \<not> (function \<in> forbidden_functions c
             \<or> (allowed_functions c \<noteq> {} \<and> function \<notin> allowed_functions c)))"
  by (auto simp: check_case_function_def allows_function_def Let_def split: option.splits)

text \<open>
  The query on the example store: the affective case admits the static function and
  refuses the dynamic one, and an unknown code is admitted.
\<close>

theorem check_case_function_valid_witness:
  "fst (check_case_function plain_repr
          \<lparr>extractor = RuleExtractor_init example_grammar, constraints = example_constraints\<rparr>
          ''AFF'' ''STA'')
   \<and> \<not> fst (check_case_function plain_repr
          \<lparr>extractor = RuleExtractor_init example_grammar, constraints = example_constraints\<rparr>
          ''AFF'' ''DYN'')
   \<and> fst (check_case_function plain_repr
          \<lparr>extractor = RuleExtractor_init example_grammar, constraints = example_constraints\<rparr>
          ''XYZ'' ''DYN'')"
  using check_case_function_valid [of plain_repr
          "\<lparr>extractor = RuleExtractor_init example_grammar, constraints = example_constraints\<rparr>"
          "''AFF''" "''STA''"]
        check_case_function_valid [of plain_repr
          "\<lparr>extractor = RuleExtractor_init example_grammar, constraints = example_constraints\<rparr>"
          "''AFF''" "''DYN''"]
        check_case_function_valid [of plain_repr
          "\<lparr>extractor = RuleExtractor_init example_grammar, constraints = example_constraints\<rparr>"
          "''XYZ''" "''DYN''"]
  by (simp add: example_lookup)

subsection \<open>Final verdict policy\<close>

text \<open>
  Claim C2. If any error was accumulated by the stages, the verdict has
  \<open>passed = False\<close>. With no error and a confidence of at least 0.85 from the semantic
  stage, the verdict passes and needs no clarification. With no error and a confidence
  below 0.85, the verdict passes and needs clarification.
\<close>

theorem verdict_policy:
  "(validate_structure j @ validate_coherence other e j @ sem_errors (validate_semantic e j) \<noteq> []
      \<longrightarrow> \<not> passed (fst (validate other e j)))
   \<and> (validate_structure j @ validate_coherence other e j @ sem_errors (validate_semantic e j) = []
        \<and> sem_confidence (validate_semantic e j) \<ge> 0.85
      \<longrightarrow> passed (fst (validate other e j)) \<and> \<not> needs_clarification (fst (validate other e j)))
   \<and> (validate_structure j @ validate_coherence other e j @ sem_errors (validate_semantic e j) = []
        \<and> sem_confidence (validate_semantic e j) < 0.85
      \<longrightarrow> passed (fst (validate other e j)) \<and> needs_clarification (fst (validate other e j)))"
  by (simp add: validate_verdict validate_structure_def sem_errors_empty)

text \<open>
  The three branches of the policy on the example engine: a forbidden pair, a known
  allowed pair (confidence 0.95) and an unknown code (confidence 0.70).
\<close>

theorem verdict_policy_witness:
  "\<not> passed (fst (validate plain_repr example_engine
        [(''case'', JStr ''AFF''), (''function'', JStr ''DYN'')]))
   \<and> passed (fst (validate plain_repr example_engine
        [(''case'', JStr ''AFF''), (''function'', JStr ''STA'')]))
   \<and> \<not> needs_clarification (fst (validate plain_repr example_engine
        [(''case'', JStr ''AFF''), (''function'', JStr ''STA'')]))
   \<and> passed (fst (validate plain_repr example_engine
        [(''case'', JStr ''XYZ''), (''function'', JStr ''STA'')]))
   \<and> needs_clarification (fst (validate plain_repr example_engine
        [(''case'', JStr ''XYZ''), (''function'', JStr ''STA'')]))"
  using verdict_policy [of "[(''case'', JStr ''AFF''), (''function'', JStr ''DYN'')]"
          plain_repr example_engine]
        verdict_policy [of "[(''case'', JStr ''AFF''), (''function'', JStr ''STA'')]"
          plain_repr example_engine]
        verdict_policy [of "[(''case'', JStr ''XYZ''), (''function'', JStr ''STA'')]"
          plain_repr example_engine]
  by (simp add: example_coherence example_semantic validate_structure_def sem_errors_empty)

subsection \<open>Short-circuiting of the coherence stages\<close>



subsection \<open>Cases of the experiencer role\<close>

text \<open>
  Claim C4, as the code has it. Let the rule store be loaded from any dataset and let a
  record of its mapping have the semantic role EXPERIENCER, under a code that is a text
  of exactly three upper-case letters. Validating that code with the function STA
  passes; with DYN or with MNF it is rejected with one error of level COHERENCE on the
  slot of the pair.
\<close>

theorem experiencer_cases:
  assumes "CooccurrenceRules_init data = Inr rules"
    and "cooccurrence_rules e = Some rules"
    and "dict_get (constraints rules) (JStr code) = Some r"
    and "semantic_role r = JStr ''EXPERIENCER''"
    and "length code = 3 \<and> isupper code \<and> isalpha code"
  shows "passed (fst (validate other e [(''case'', JStr code), (''function'', JStr ''STA'')]))
    \<and> \<not> passed (fst (validate other e [(''case'', JStr code), (''function'', JStr ''DYN'')]))
    \<and> map level (errors (fst (validate other e [(''case'', JStr code), (''function'', JStr ''DYN'')])))
        = [COHERENCE]
    \<and> map slot (errors (fst (validate other e [(''case'', JStr code), (''function'', JStr ''DYN'')])))
        = [Some ''case+function'']
    \<and> \<not> passed (fst (validate other e [(''case'', JStr code), (''function'', JStr ''MNF'')]))
    \<and> map level (errors (fst (validate other e [(''case'', JStr code), (''function'', JStr ''MNF'')])))
        = [COHERENCE]
    \<and> map slot (errors (fst (validate other e [(''case'', JStr code), (''function'', JStr ''MNF'')])))
        = [Some ''case+function'']"
proof -
  note rec = experiencer_record [OF assms(1,3,4)]
  have a: "allows_function r ''STA''" "\<not> allows_function r ''DYN''" "\<not> allows_function r ''MNF''"
    by (simp_all add: allows_function_def rec)
  note coh = coherence_known_case [OF assms(2,3,5)]
  show ?thesis
    by (simp add: passed_validate errors_validate coh sta_valid a)
qed

text \<open>The affective case of the example dataset.\<close>

theorem experiencer_cases_witness:
  "passed (fst (validate plain_repr example_engine
       [(''case'', JStr ''AFF''), (''function'', JStr ''STA'')]))
   \<and> \<not> passed (fst (validate plain_repr example_engine
       [(''case'', JStr ''AFF''), (''function'', JStr ''DYN'')]))
   \<and> map level (errors (fst (validate plain_repr example_engine
       [(''case'', JStr ''AFF''), (''function'', JStr ''DYN'')]))) = [COHERENCE]
   \<and> \<not> passed (fst (validate plain_repr example_engine
       [(''case'', JStr ''AFF''), (''function'', JStr ''MNF'')]))"
proof -
  have role: "semantic_role \<lparr>case_name = JStr ''Affective'', case_abbrev = JStr ''AFF'',
           semantic_role = JStr ''EXPERIENCER'', description = JStr ''Unwilled experience'',
           allowed_functions = {''STA''}, forbidden_functions = {''DYN'', ''MNF''},
           why_not_alternatives = JObj [], common_mistakes = JList []\<rparr> = JStr ''EXPERIENCER''"
    by simp
  have look: "dict_get (constraints
       \<lparr>extractor = RuleExtractor_init example_grammar, constraints = example_constraints\<rparr>)
       (JStr ''AFF'') = Some \<lparr>case_name = JStr ''Affective'', case_abbrev = JStr ''AFF'',
           semantic_role = JStr ''EXPERIENCER'', description = JStr ''Unwilled experience'',
           allowed_functions = {''STA''}, forbidden_functions = {''DYN'', ''MNF''},
           why_not_alternatives = JObj [], common_mistakes = JList []\<rparr>"
    by (simp add: example_lookup)
  show ?thesis
    using experiencer_cases [OF init_example example_engine_fields(1) look role format_ok(1),
        of plain_repr]
    by simp
qed

text \<open>
  Claim C4, as stated, fails: extraction stores any code unchecked, so a dataset may
  hold an EXPERIENCER record under the code \<open>aff\<close>; validating that code with STA
  is rejected by the format check, before the record is looked up.
\<close>

theorem experiencer_cases_counterexample:
  "cooccurrence_rules lowercase_engine =
     Some \<lparr>extractor = RuleExtractor_init lowercase_grammar,
           constraints =
             [(JStr ''aff'',
               \<lparr>case_name = JStr ''Affective'', case_abbrev = JStr ''aff'',
                semantic_role = JStr ''EXPERIENCER'', description = JStr ''Unwilled experience'',
                allowed_functions = {''STA''}, forbidden_functions = {''DYN'', ''MNF''},
                why_not_alternatives = JObj [], common_mistakes = JList []\<rparr>)]\<rparr>
   \<and> \<not> passed (fst (validate plain_repr lowercase_engine
          [(''case'', JStr ''aff''), (''function'', JStr ''STA'')]))
   \<and> errors (fst (validate plain_repr lowercase_engine
          [(''case'', JStr ''aff''), (''function'', JStr ''STA'')])) = [case_format_error ''aff'']"
proof -
  have "validate_coherence plain_repr lowercase_engine
          [(''case'', JStr ''aff''), (''function'', JStr ''STA'')] = [case_format_error ''aff'']"
    by (simp add: validate_coherence_text [of _ "''aff''" "''STA''"] obj_get_def sta_valid
        isupper_def is_lower_cp_def)
  then show ?thesis
    by (simp add: lowercase_rules passed_validate errors_validate)
qed

subsection \<open>Errors of the rule extractor\<close>

text \<open>
  Claim C5, as the code has it. An empty dataset is extracted to the empty mapping.
  The role UNKNOWN allows all three functions and forbids none. A dataset of one case
  entry whose code and semantic role can be hashed is extracted to one record, stored
  under the entry's code, with \<open>None\<close> for a missing code, the code for a missing
  name, UNKNOWN for a missing semantic role, the empty text for a missing
  description, and the two sets that the role table gives for the role. In a dataset
  that is any list, every record of the extracted mapping is built in this way from
  some case entry of the list, and the code of every case entry is a key of the
  mapping. A list of records is extracted to some mapping when every code and
  semantic role can be hashed, and raises \<open>TypeError\<close> when a case entry has a
  code or a semantic role that cannot. Extraction raises \<open>AttributeError\<close> when some
  entry of the list is not a record, and \<open>TypeError\<close> when the dataset is
  \<open>None\<close>, a truth value or a number.
\<close>

theorem extraction_errors:
  "extract_case_constraints (RuleExtractor_init (JList [])) = Inr []
   \<and> rules_get ROLE_FUNCTION_RULES (JStr ''UNKNOWN'')
       = \<lparr>allowed = {''STA'', ''DYN'', ''MNF''}, forbidden = {}\<rparr>
   \<and> (map_of kvs ''type'' = Some (JStr ''case'')
        \<and> hashable (obj_get kvs ''code'' JNull)
        \<and> hashable (obj_get kvs ''semantic_role'' (JStr ''UNKNOWN''))
      \<longrightarrow> extract_case_constraints (RuleExtractor_init (JList [JObj kvs])) =
            Inr [(case map_of kvs ''code'' of None \<Rightarrow> JNull | Some v \<Rightarrow> v,
              \<lparr>case_name =
                 (case map_of kvs ''name'' of
                    None \<Rightarrow> (case map_of kvs ''code'' of None \<Rightarrow> JNull | Some v \<Rightarrow> v)
                  | Some v \<Rightarrow> v),
               case_abbrev = (case map_of kvs ''code'' of None \<Rightarrow> JNull | Some v \<Rightarrow> v),
               semantic_role =
                 (case map_of kvs ''semantic_role'' of None \<Rightarrow> JStr ''UNKNOWN'' | Some v \<Rightarrow> v),
               description =
                 (case map_of kvs ''description'' of None \<Rightarrow> JStr [] | Some v \<Rightarrow> v),
               allowed_functions =
                 allowed (rules_get ROLE_FUNCTION_RULES
                   (case map_of kvs ''semantic_role'' of
                      None \<Rightarrow> JStr ''UNKNOWN'' | Some v \<Rightarrow> v)),
               forbidden_functions =
                 forbidden (rules_get ROLE_FUNCTION_RULES
                   (case map_of kvs ''semantic_role'' of
                      None \<Rightarrow> JStr ''UNKNOWN'' | Some v \<Rightarrow> v)),
               why_not_alternatives =
                 (case map_of kvs ''why_not_alternatives'' of None \<Rightarrow> JObj [] | Some v \<Rightarrow> v),
               common_mistakes =
                 (case map_of kvs ''common_mistakes'' of None \<Rightarrow> JList [] | Some v \<Rightarrow> v)\<rparr>)])
   \<and> (extract_case_constraints (RuleExtractor_init (JList items)) = Inr cs \<longrightarrow>
        (\<forall>k c. (k, c) \<in> set cs \<longrightarrow>
           (\<exists>e. JObj e \<in> set items \<and> map_of e ''type'' = Some (JStr ''case'')
              \<and> py_eq k (case map_of e ''code'' of None \<Rightarrow> JNull | Some v \<Rightarrow> v)
              \<and> c =
                \<lparr>case_name =
                   (case map_of e ''name'' of
                      None \<Rightarrow> (case map_of e ''code'' of None \<Rightarrow> JNull | Some v \<Rightarrow> v)
                    | Some v \<Rightarrow> v),
                 case_abbrev = (case map_of e ''code'' of None \<Rightarrow> JNull | Some v \<Rightarrow> v),
                 semantic_role =
                   (case map_of e ''semantic_role'' of None \<Rightarrow> JStr ''UNKNOWN'' | Some v \<Rightarrow> v),
                 description =
                   (case map_of e ''description'' of None \<Rightarrow> JStr [] | Some v \<Rightarrow> v),
                 allowed_functions =
                   allowed (rules_get ROLE_FUNCTION_RULES
                     (case map_of e ''semantic_role'' of
                        None \<Rightarrow> JStr ''UNKNOWN'' | Some v \<Rightarrow> v)),
                 forbidden_functions =
                   forbidden (rules_get ROLE_FUNCTION_RULES
                     (case map_of e ''semantic_role'' of
                        None \<Rightarrow> JStr ''UNKNOWN'' | Some v \<Rightarrow> v)),
                 why_not_alternatives =
                   (case map_of e ''why_not_alternatives'' of None \<Rightarrow> JObj [] | Some v \<Rightarrow> v),
                 common_mistakes =
                   (case map_of e ''common_mistakes'' of None \<Rightarrow> JList [] | Some v \<Rightarrow> v)\<rparr>))
        \<and> (\<forall>e. JObj e \<in> set items \<and> map_of e ''type'' = Some (JStr ''case'') \<longrightarrow>
              dict_contains cs (case map_of e ''code'' of None \<Rightarrow> JNull | Some v \<Rightarrow> v)))
   \<and> (list_all (\<lambda>i. type_name i = ''dict'') items
        \<and> (\<forall>e. JObj e \<in> set items \<longrightarrow>
               hashable (obj_get e ''code'' JNull)
               \<and> hashable (obj_get e ''semantic_role'' (JStr ''UNKNOWN'')))
      \<longrightarrow> (\<exists>cs. extract_case_constraints (RuleExtractor_init (JList items)) = Inr cs))
   \<and> (list_all (\<lambda>i. type_name i = ''dict'') items
        \<and> (\<exists>e. JObj e \<in> set items \<and> map_of e ''type'' = Some (JStr ''case'')
               \<and> (\<not> hashable (obj_get e ''code'' JNull)
                   \<or> \<not> hashable (obj_get e ''semantic_role'' (JStr ''UNKNOWN''))))
      \<longrightarrow> extract_case_constraints (RuleExtractor_init (JList items)) = Inl TypeError)
   \<and> (list_ex (\<lambda>i. type_name i \<noteq> ''dict'') items
      \<longrightarrow> extract_case_constraints (RuleExtractor_init (JList items)) = Inl AttributeError)
   \<and> (type_name data \<in> {''NoneType'', ''bool'', ''int'', ''float''}
      \<longrightarrow> extract_case_constraints (RuleExtractor_init data) = Inl TypeError)"
proof (intro conjI impI allI, goal_cases)
  case 1
  show ?case by (simp add: extract_list)
next
  case 2
  show ?case by (rule unknown_rule)
next
  case 3
  then have "extract_case_constraints (RuleExtractor_init (JList [JObj kvs])) =
           Inr [(obj_get kvs ''code'' JNull, make_constraint ROLE_FUNCTION_RULES kvs)]"
    by (intro extract_single) simp_all
  then show ?case
    unfolding make_constraint_fields by (simp add: obj_get_def)
next
  case (4 k c)
  from extract_record_origin [OF 4] show ?case
    unfolding make_constraint_fields .
next
  case (5 e)
  then show ?case by (auto intro: extract_entry_known)
next
  case 6
  then obtain cs where cs: "select_cases items = Inr cs" "set cs \<subseteq> set items"
    using select_cases_records by blast
  with 6 have "list_all (\<lambda>i. type_name i = ''dict'') cs"
    and "\<forall>kvs. JObj kvs \<in> set cs \<longrightarrow>
       hashable (obj_get kvs ''code'' JNull)
       \<and> hashable (obj_get kvs ''semantic_role'' (JStr ''UNKNOWN''))"
    by (auto simp: list_all_iff)
  then obtain r where "extract_loop ROLE_FUNCTION_RULES cs [] = Inr r"
    using extract_loop_records by blast
  with cs show ?case by (simp add: extract_list)
next
  case 7
  then obtain e where "list_all (\<lambda>i. type_name i = ''dict'') items" "JObj e \<in> set items"
    "map_of e ''type'' = Some (JStr ''case'')"
    "\<not> hashable (case map_of e ''code'' of None \<Rightarrow> JNull | Some v \<Rightarrow> v)
         \<or> \<not> hashable (case map_of e ''semantic_role'' of
                           None \<Rightarrow> JStr ''UNKNOWN'' | Some v \<Rightarrow> v)"
    by (auto simp: obj_get_def)
  then show ?case by (rule extract_unhashable)
next
  case 8
  then show ?case by (simp add: extract_list select_cases_not_record)
next
  case 9
  then show ?case
    by (cases data) (simp_all add: extract_case_constraints_def RuleExtractor_init_def)
qed

text \<open>
  An entry with a code and no name or role gets the code as its name and the role
  UNKNOWN; the example dataset is extracted without error and knows its second case;
  an entry whose code is a list, a list holding a text and a dataset that is a number
  are refused.
\<close>

theorem extraction_errors_witness:
  "extract_case_constraints
       (RuleExtractor_init (JList [JObj [(''type'', JStr ''case''), (''code'', JStr ''AFF'')]])) =
     Inr [(JStr ''AFF'',
           \<lparr>case_name = JStr ''AFF'', case_abbrev = JStr ''AFF'',
            semantic_role = JStr ''UNKNOWN'', description = JStr [],
            allowed_functions = {''STA'', ''DYN'', ''MNF''}, forbidden_functions = {},
            why_not_alternatives = JObj [], common_mistakes = JList []\<rparr>)]
   \<and> dict_contains example_constraints (JStr ''ERG'')
   \<and> \<not> isl (extract_case_constraints (RuleExtractor_init example_grammar))
   \<and> extract_case_constraints
        (RuleExtractor_init (JList [JObj [(''type'', JStr ''case''), (''code'', JList [])]]))
       = Inl TypeError
   \<and> extract_case_constraints (RuleExtractor_init (JList [JStr ''AFF''])) = Inl AttributeError
   \<and> extract_case_constraints (RuleExtractor_init (JInt 5)) = Inl TypeError"
proof -
  let ?items = "[JObj [(''id'', JStr ''case_aff''), (''type'', JStr ''case''), (''code'', JStr ''AFF''),
             (''name'', JStr ''Affective''), (''semantic_role'', JStr ''EXPERIENCER''),
             (''description'', JStr ''Unwilled experience'')],
       JObj [(''id'', JStr ''case_erg''), (''type'', JStr ''case''), (''code'', JStr ''ERG''),
             (''name'', JStr ''Ergative''), (''semantic_role'', JStr ''AGENT''),
             (''description'', JStr ''Willed action'')],
       JObj [(''id'', JStr ''slot_1''), (''type'', JStr ''slot''), (''code'', JStr ''I'')]]"
  have x: "extract_case_constraints (RuleExtractor_init (JList ?items)) = Inr example_constraints"
    using extract_example by (simp add: example_grammar_def)
  note a = extraction_errors [where kvs = "[(''type'', JStr ''case''), (''code'', JStr ''AFF'')]"
      and items = ?items and cs = example_constraints and data = "JInt 5"]
  note b = extraction_errors [where items = "[JObj [(''type'', JStr ''case''), (''code'', JList [])]]"]
  note c = extraction_errors [where items = "[JStr ''AFF'']"]
  note single = a [THEN conjunct2, THEN conjunct2, THEN conjunct1]
  note known = a [THEN conjunct2, THEN conjunct2, THEN conjunct2, THEN conjunct1, rule_format,
      OF x, THEN conjunct2, rule_format]
  note total = a [THEN conjunct2, THEN conjunct2, THEN conjunct2, THEN conjunct2, THEN conjunct1]
  note unhashable = b [THEN conjunct2, THEN conjunct2, THEN conjunct2, THEN conjunct2,
      THEN conjunct2, THEN conjunct1]
  note not_record = c [THEN conjunct2, THEN conjunct2, THEN conjunct2, THEN conjunct2,
      THEN conjunct2, THEN conjunct2, THEN conjunct1]
  note not_iterable = a [THEN conjunct2, THEN conjunct2, THEN conjunct2, THEN conjunct2,
      THEN conjunct2, THEN conjunct2, THEN conjunct2]
  from single have 1: "extract_case_constraints
       (RuleExtractor_init (JList [JObj [(''type'', JStr ''case''), (''code'', JStr ''AFF'')]])) =
     Inr [(JStr ''AFF'',
           \<lparr>case_name = JStr ''AFF'', case_abbrev = JStr ''AFF'',
            semantic_role = JStr ''UNKNOWN'', description = JStr [],
            allowed_functions = {''STA'', ''DYN'', ''MNF''}, forbidden_functions = {},
            why_not_alternatives = JObj [], common_mistakes = JList []\<rparr>)]"
    by (simp add: obj_get_def default_rule_def ROLE_FUNCTION_RULES_def)
  have 2: "dict_contains example_constraints (JStr ''ERG'')"
    using known [of "[(''id'', JStr ''case_erg''), (''type'', JStr ''case''), (''code'', JStr ''ERG''),
             (''name'', JStr ''Ergative''), (''semantic_role'', JStr ''AGENT''),
             (''description'', JStr ''Willed action'')]"]
    by simp
  from total have 3: "\<not> isl (extract_case_constraints (RuleExtractor_init example_grammar))"
    by (auto simp: example_grammar_def obj_get_def)
  from not_iterable have 6: "extract_case_constraints (RuleExtractor_init (JInt 5)) = Inl TypeError"
    by simp
  from unhashable have 4: "extract_case_constraints
        (RuleExtractor_init (JList [JObj [(''type'', JStr ''case''), (''code'', JList [])]]))
       = Inl TypeError"
    by (simp add: obj_get_def)
  from not_record have 5:
    "extract_case_constraints (RuleExtractor_init (JList [JStr ''AFF''])) = Inl AttributeError"
    by simp
  from 1 2 3 4 5 6 show ?thesis by simp
qed

text \<open>
  Claim C5, as stated, fails: the empty dataset and an entry that lacks every required
  field both yield a constraint mapping, and no exception is raised.
\<close>

theorem extraction_counterexample:
  "extract_case_constraints (RuleExtractor_init (JList [])) = Inr []
   \<and> extract_case_constraints (RuleExtractor_init (JList [JObj [(''type'', JStr ''case'')]])) =
       Inr [(JNull,
             \<lparr>case_name = JNull, case_abbrev = JNull, semantic_role = JStr ''UNKNOWN'',
              description = JStr [], allowed_functions = {''STA'', ''DYN'', ''MNF''},
              forbidden_functions = {}, why_not_alternatives = JObj [],
              common_mistakes = JList []\<rparr>)]"
  by (simp add: extract_case_constraints_def RuleExtractor_init_def obj_get_def
      make_constraint_def default_rule_def ROLE_FUNCTION_RULES_def)

subsection \<open>Consistency of the rules at load time\<close>

text \<open>
  Claim C6, as the code has it. Every record that extraction produces with the role
  table of the program has disjoint allowed and forbidden sets. With any role table, if
  some extracted record has overlapping sets then building the rule store raises
  \<open>ValueError\<close>; the engine's constructor catches it and the engine starts all the
  same, with no rule store and no retriever, so that its constraint lookup reports
  nothing. With any role table, a rule store that an engine holds has only records
  with disjoint sets.
\<close>

theorem load_time_consistency:
  "(extract_case_constraints (RuleExtractor_init data) = Inr cs \<longrightarrow>
      list_all (\<lambda>kv. allowed_functions (snd kv) \<inter> forbidden_functions (snd kv) = {}) cs)
   \<and> (extract_case_constraints \<lparr>role_function_rules = tbl, raw_data = data\<rparr> = Inr cs'
        \<and> list_ex (\<lambda>kv. allowed_functions (snd kv) \<inter> forbidden_functions (snd kv) \<noteq> {}) cs'
      \<longrightarrow> CooccurrenceRules_load \<lparr>role_function_rules = tbl, raw_data = data\<rparr> = Inl ValueError
        \<and> ValidationEngine_init_with tbl kb (Some (Inr data)) rag_system =
            \<lparr>grammar_kb = kb,
             stats = \<lparr>total_validations = 0, stats_passed = 0,
                      stats_rejected = 0, clarification_needed = 0\<rparr>,
             cooccurrence_rules = None, rag = None\<rparr>
        \<and> check_cooccurrence other
             (ValidationEngine_init_with tbl kb (Some (Inr data)) rag_system) c f = [])
   \<and> (cooccurrence_rules (ValidationEngine_init_with tbl kb grammar_file rag_system) = Some rules
      \<longrightarrow> list_all (\<lambda>kv. allowed_functions (snd kv) \<inter> forbidden_functions (snd kv) = {})
            (constraints rules))"
proof (intro conjI impI, goal_cases)
  case 1
  then show ?case by (rule extract_consistent)
next
  case 2
  then show ?case by (auto intro: load_conflict)
next
  case 3
  then have "CooccurrenceRules_load \<lparr>role_function_rules = tbl, raw_data = data\<rparr> = Inl ValueError"
    by (auto intro: load_conflict)
  then show ?case by (rule engine_with_failed_load)
next
  case 4
  then have "CooccurrenceRules_load \<lparr>role_function_rules = tbl, raw_data = data\<rparr> = Inl ValueError"
    by (auto intro: load_conflict)
  then show ?case by (simp add: engine_with_failed_load check_cooccurrence_def)
next
  case 5
  then obtain ex where "CooccurrenceRules_load ex = Inr rules"
    by (auto simp: engine_with_rules split: option.splits sum.splits)
  then show ?case by (rule load_consistent)
qed

text \<open>
  The example dataset gives consistent records. With a role table whose experiencer
  rule both allows and forbids STA, loading the rule store raises and the engine is
  left without rules; the engine of the program on the example dataset holds the
  consistent records.
\<close>

theorem load_time_consistency_witness:
  "list_all (\<lambda>kv. allowed_functions (snd kv) \<inter> forbidden_functions (snd kv) = {})
     example_constraints
   \<and> CooccurrenceRules_load \<lparr>role_function_rules = conflicting_table, raw_data = example_grammar\<rparr>
       = Inl ValueError
   \<and> cooccurrence_rules conflicting_engine = None
   \<and> list_all (\<lambda>kv. allowed_functions (snd kv) \<inter> forbidden_functions (snd kv) = {})
       (constraints \<lparr>extractor = RuleExtractor_init example_grammar,
                     constraints = example_constraints\<rparr>)"
  using load_time_consistency [where data = example_grammar and cs = example_constraints
        and tbl = conflicting_table and kb = "[]" and rag_system = "Inr example_rag"
        and cs' = "[(JStr ''AFF'',
       \<lparr>case_name = JStr ''Affective'', case_abbrev = JStr ''AFF'',
        semantic_role = JStr ''EXPERIENCER'', description = JStr ''Unwilled experience'',
        allowed_functions = {''STA''}, forbidden_functions = {''STA''},
        why_not_alternatives = JObj [], common_mistakes = JList []\<rparr>),
      (JStr ''ERG'',
       \<lparr>case_name = JStr ''Ergative'', case_abbrev = JStr ''ERG'',
        semantic_role = JStr ''AGENT'', description = JStr ''Willed action'',
        allowed_functions = {''STA'', ''DYN'', ''MNF''}, forbidden_functions = {},
        why_not_alternatives = JObj [], common_mistakes = JList []\<rparr>)]"]
     load_time_consistency [where tbl = ROLE_FUNCTION_RULES and kb = "[]"
        and grammar_file = "Some (Inr example_grammar)" and rag_system = "Inr example_rag"
        and rules = "\<lparr>extractor = RuleExtractor_init example_grammar,
                     constraints = example_constraints\<rparr>"]
  by (simp add: extract_example conflicting_extract conflicting_engine_def
      engine_init_table [symmetric] example_engine_fields [unfolded example_engine_def])

text \<open>
  Claim C6, as stated, fails: with the inconsistent role table the rule store raises,
  but the validator starts, and it accepts the affective case with the dynamic
  function.
\<close>

theorem load_time_counterexample:
  "CooccurrenceRules_load \<lparr>role_function_rules = conflicting_table, raw_data = example_grammar\<rparr>
     = Inl ValueError
   \<and> conflicting_engine =
       \<lparr>grammar_kb = [],
        stats = \<lparr>total_validations = 0, stats_passed = 0,
                 stats_rejected = 0, clarification_needed = 0\<rparr>,
        cooccurrence_rules = None, rag = None\<rparr>
   \<and> passed (fst (validate plain_repr conflicting_engine
        [(''case'', JStr ''AFF''), (''function'', JStr ''DYN'')]))"
proof -
  have e: "conflicting_engine =
       \<lparr>grammar_kb = [],
        stats = \<lparr>total_validations = 0, stats_passed = 0,
                 stats_rejected = 0, clarification_needed = 0\<rparr>,
        cooccurrence_rules = None, rag = None\<rparr>"
    unfolding conflicting_engine_def by (rule engine_with_failed_load [OF conflicting_load])
  have "validate_coherence plain_repr conflicting_engine
        [(''case'', JStr ''AFF''), (''function'', JStr ''DYN'')] = []"
    by (simp add: validate_coherence_text [of _ "''AFF''" "''DYN''"] obj_get_def format_ok
        sta_valid check_cooccurrence_def e)
  with e conflicting_load show ?thesis by (simp add: passed_validate)
qed

subsection \<open>A case that is not text\<close>

text \<open>
  Claim C7, as the code has it. When the case value is truthy and not text, and the
  function value is truthy, the verdict is a rejection with confidence 0, no citation
  and exactly one error: it is on the slot \<open>case\<close> and its message names the kind of
  the value. The verdict is the same for every engine, so the rule store has no part
  in it.
\<close>

theorem non_text_case_rejected:
  "truthy (obj_get j ''case'' JNull) \<and> \<not> is_str (obj_get j ''case'' JNull)
     \<and> truthy (obj_get j ''function'' JNull) \<longrightarrow>
   fst (validate other e j) =
     \<lparr>passed = False, confidence = 0,
      errors = [\<lparr>level = COHERENCE,
                 message = Some (''Case must be a string, got ''
                                 @ type_name (obj_get j ''case'' JNull)),
                 slot = Some ''case'',
                 suggestion = Some ''Use a 3-letter case code like AFF, ERG, ABS''\<rparr>],
      citations = [], needs_clarification = False\<rparr>
   \<and> (\<forall>e'. fst (validate other e' j) = fst (validate other e j))"
  by (simp add: validate_verdict validate_coherence_case_type case_type_error_def)

text \<open>The number 123 as case, with the function STA.\<close>

theorem non_text_case_rejected_witness:
  "fst (validate plain_repr example_engine [(''case'', JInt 123), (''function'', JStr ''STA'')]) =
     \<lparr>passed = False, confidence = 0,
      errors = [\<lparr>level = COHERENCE,
                 message = Some ''Case must be a string, got int'',
                 slot = Some ''case'',
                 suggestion = Some ''Use a 3-letter case code like AFF, ERG, ABS''\<rparr>],
      citations = [], needs_clarification = False\<rparr>"
  using non_text_case_rejected [of "[(''case'', JInt 123), (''function'', JStr ''STA'')]"
          plain_repr example_engine]
  by (simp add: obj_get_def)

text \<open>
  Claim C7, as stated, fails: a numeric case without a function passes, because the
  presence check comes first.
\<close>

theorem non_text_case_counterexample:
  "passed (fst (validate plain_repr example_engine [(''case'', JInt 123)]))
   \<and> errors (fst (validate plain_repr example_engine [(''case'', JInt 123)])) = []"
  by (simp add: validate_verdict example_coherence)

subsection \<open>Counters\<close>

text \<open>
  Claim C8, as the code has it. Every call adds one to \<open>total_validations\<close>, and one
  to exactly one of the passed and rejected counters: the passed counter when the
  verdict passes, the rejected counter otherwise. The clarification counter grows by
  one, together with the passed counter, exactly when the verdict needs
  clarification. Nothing else in the engine changes.
\<close>

theorem validate_counters:
  "stats (snd (validate other e j)) =
     \<lparr>total_validations = total_validations (stats e) + 1,
      stats_passed = stats_passed (stats e) + (if passed (fst (validate other e j)) then 1 else 0),
      stats_rejected = stats_rejected (stats e) + (if passed (fst (validate other e j)) then 0 else 1),
      clarification_needed = clarification_needed (stats e)
         + (if needs_clarification (fst (validate other e j)) then 1 else 0)\<rparr>
   \<and> cooccurrence_rules (snd (validate other e j)) = cooccurrence_rules e
   \<and> rag (snd (validate other e j)) = rag e
   \<and> grammar_kb (snd (validate other e j)) = grammar_kb e"
  by (simp add: validate_keeps_rules)
     (simp add: validate_engine validate_verdict count_passed_def count_rejected_def
      count_clarification_def count_total_def)

text \<open>The counters of a fresh engine after one rejection, and after one plain pass.\<close>

theorem validate_counters_witness:
  "stats (snd (validate plain_repr example_engine
       [(''case'', JStr ''AFF''), (''function'', JStr ''DYN'')])) =
     \<lparr>total_validations = 1, stats_passed = 0, stats_rejected = 1, clarification_needed = 0\<rparr>
   \<and> stats (snd (validate plain_repr example_engine
       [(''case'', JStr ''AFF''), (''function'', JStr ''STA'')])) =
     \<lparr>total_validations = 1, stats_passed = 1, stats_rejected = 0, clarification_needed = 0\<rparr>"
  using validate_counters [of plain_repr example_engine
          "[(''case'', JStr ''AFF''), (''function'', JStr ''DYN'')]"]
        validate_counters [of plain_repr example_engine
          "[(''case'', JStr ''AFF''), (''function'', JStr ''STA'')]"]
  by (simp add: validate_verdict example_coherence example_semantic example_engine_fields)

text \<open>
  Claim C8, as stated, fails: for an unknown code the retriever finds nothing, the
  confidence is 0.70, and one call raises both the passed and the clarification
  counter.
\<close>

theorem validate_counters_counterexample:
  "stats (snd (validate plain_repr example_engine
       [(''case'', JStr ''XYZ''), (''function'', JStr ''STA'')])) =
     \<lparr>total_validations = 1, stats_passed = 1, stats_rejected = 0, clarification_needed = 1\<rparr>"
  by (simp add: validate_engine example_coherence example_semantic example_engine_fields
      count_passed_def count_clarification_def count_total_def)

subsection \<open>Determinism\<close>

text \<open>
  Claim C9. A second call with the same input, on the engine as the first call left
  it, returns the same verdict: the same \<open>passed\<close>, errors, confidence, citations and
  \<open>needs_clarification\<close>.
\<close>

theorem validate_deterministic:
  "fst (validate other (snd (validate other e j)) j) = fst (validate other e j)"
proof -
  let ?e' = "snd (validate other e j)"
  have c: "validate_coherence other ?e' j = validate_coherence other e j"
    by (rule validate_coherence_cong) (rule validate_keeps_rules)
  have s: "validate_semantic ?e' j = validate_semantic e j"
    by (rule validate_semantic_cong) (rule validate_keeps_rules)
  show ?thesis
    unfolding validate_verdict [of other ?e' j] validate_verdict [of other e j] c s ..
qed

text \<open>Two calls in a row on the example engine.\<close>

theorem validate_deterministic_witness:
  "fst (validate plain_repr
         (snd (validate plain_repr example_engine
                 [(''case'', JStr ''AFF''), (''function'', JStr ''DYN'')]))
         [(''case'', JStr ''AFF''), (''function'', JStr ''DYN'')])
   = fst (validate plain_repr example_engine
            [(''case'', JStr ''AFF''), (''function'', JStr ''DYN'')])"
  using validate_deterministic [of plain_repr example_engine
          "[(''case'', JStr ''AFF''), (''function'', JStr ''DYN'')]"]
  by simp

subsection \<open>Rejected verdicts\<close>

text \<open>
  Claim C10. Whenever the verdict does not pass, its confidence is exactly 0, it has no
  citations and it does not need clarification.
\<close>

theorem rejected_verdict_is_bare:
  "\<not> passed (fst (validate other e j)) \<longrightarrow>
     confidence (fst (validate other e j)) = 0
     \<and> citations (fst (validate other e j)) = []
     \<and> \<not> needs_clarification (fst (validate other e j))"
  by (simp add: validate_verdict)

text \<open>A rejected verdict of the example engine.\<close>

theorem rejected_verdict_is_bare_witness:
  "\<not> passed (fst (validate plain_repr example_engine
        [(''case'', JStr ''AFF''), (''function'', JStr ''DYN'')]))
   \<and> confidence (fst (validate plain_repr example_engine
        [(''case'', JStr ''AFF''), (''function'', JStr ''DYN'')])) = 0
   \<and> citations (fst (validate plain_repr example_engine
        [(''case'', JStr ''AFF''), (''function'', JStr ''DYN'')])) = []
   \<and> \<not> needs_clarification (fst (validate plain_repr example_engine
        [(''case'', JStr ''AFF''), (''function'', JStr ''DYN'')]))"
  using rejected_verdict_is_bare [of plain_repr example_engine
          "[(''case'', JStr ''AFF''), (''function'', JStr ''DYN'')]"]
  by (simp add: passed_validate example_coherence)

end
